theory Spec2Isabelle
  imports Complex_Main
begin

section \<open>Python values\<close>

text \<open>
  The orchestrator passes dictionaries of untyped values around: the parsed JSON that the
  language-model agents return, the market-data dictionaries, and the result of a round.
  One datatype covers them. \<open>PNum\<close> is a Python \<open>int\<close> or \<open>float\<close> (a JSON number),
  \<open>PDec\<close> a \<open>Decimal\<close>; both carry the number they denote as a rational, so the binary
  rounding of \<open>float(...)\<close> and the special values NaN and Infinity are outside the model.
  A dictionary is an association list with distinct keys, in insertion order.
\<close>

datatype pyval =
    PNone
  | PBool bool
  | PNum rat
  | PDec rat
  | PStr string
  | PList "pyval list"
  | PDict "(string \<times> pyval) list"

type_synonym dict = "(string \<times> pyval) list"

datatype error =
    DoesNotExist
  | ValueError string
  | KeyError string
  | TypeError
  | AttributeError
  | InvalidOperation
  | IntegrityError
  | ValidationError
  | DatabaseError
  | AgentError

text \<open>
  The exceptions that the orchestrator lets through, with the message of those that the
  repository's own code raises. \<open>IntegrityError\<close>, \<open>ValidationError\<close> and
  \<open>DatabaseError\<close> (any other failure of a write) come from the database layer,
  \<open>AgentError\<close> is any failure inside an agent.
\<close>

text \<open>Truth value of a Python object, as \<open>if x:\<close> tests it.\<close>

fun truthy :: "pyval \<Rightarrow> bool" where
  "truthy PNone = False"
| "truthy (PBool b) = b"
| "truthy (PNum r) = (r \<noteq> 0)"
| "truthy (PDec r) = (r \<noteq> 0)"
| "truthy (PStr s) = (s \<noteq> [])"
| "truthy (PList xs) = (xs \<noteq> [])"
| "truthy (PDict kvs) = (kvs \<noteq> [])"

text \<open>\<open>d.get(k, default)\<close>, \<open>d.get(k)\<close>, \<open>d[k]\<close> and \<open>k in d\<close>.\<close>

definition get_default :: "dict \<Rightarrow> string \<Rightarrow> pyval \<Rightarrow> pyval" where
  "get_default d k dflt = (case map_of d k of None \<Rightarrow> dflt | Some v \<Rightarrow> v)"

definition get :: "dict \<Rightarrow> string \<Rightarrow> pyval" where
  "get d k = get_default d k PNone"

definition subscript :: "dict \<Rightarrow> string \<Rightarrow> error + pyval" where
  "subscript d k = (case map_of d k of None \<Rightarrow> Inl (KeyError k) | Some v \<Rightarrow> Inr v)"

definition keys :: "dict \<Rightarrow> string set" where
  "keys d = set (map fst d)"

text \<open>
  \<open>Decimal(str(v))\<close>. The text of a number or of a \<open>Decimal\<close> reads back as the same
  number; the text of \<open>None\<close>, of a boolean, of a list or of a dictionary is no decimal
  literal and raises \<open>decimal.InvalidOperation\<close>; a string is read by the \<open>decimal\<close>
  module's own parser, which is a parameter here.
\<close>

fun decimal_of_str :: "(string \<Rightarrow> rat option) \<Rightarrow> pyval \<Rightarrow> error + rat" where
  "decimal_of_str parse (PNum r) = Inr r"
| "decimal_of_str parse (PDec r) = Inr r"
| "decimal_of_str parse (PStr s) =
     (case parse s of None \<Rightarrow> Inl InvalidOperation | Some r \<Rightarrow> Inr r)"
| "decimal_of_str parse PNone = Inl InvalidOperation"
| "decimal_of_str parse (PBool b) = Inl InvalidOperation"
| "decimal_of_str parse (PList xs) = Inl InvalidOperation"
| "decimal_of_str parse (PDict kvs) = Inl InvalidOperation"

text \<open>Sequencing of two steps that may raise: the second runs on the value of the first.\<close>

definition and_then :: "error + 'a \<Rightarrow> ('a \<Rightarrow> error + 'b) \<Rightarrow> error + 'b" where
  "and_then r f = (case r of Inl err \<Rightarrow> Inl err | Inr x \<Rightarrow> f x)"

section \<open>The data model (negotiation/models.py)\<close>

text \<open>
  One record per Django model, with the fields the orchestrator reads or writes. The same
  record stands for a row of the table and for the Python object of that row. Times are
  seconds on the clock of \<open>datetime.now()\<close>. A nullable column is an \<open>option\<close>; an
  attribute that the orchestrator fills with an unvalidated value of an agent's answer is
  a \<open>pyval\<close> (\<open>PNone\<close> is the null).
\<close>

record vehicle =
  v_id :: nat
  v_make :: string
  v_model :: string
  v_year :: int
  v_fuel_type :: string
  v_transmission :: string
  v_current_market_value :: rat
  v_in_stock :: bool

record client =
  c_id :: nat
  c_preferred_fuel :: string
  c_preferred_transmission :: string
  c_budget_min :: "rat option"
  c_budget_max :: "rat option"
  c_subscription_preference :: string

record market_data =
  md_make :: string
  md_model :: string
  md_year :: int
  md_fuel_type :: string
  md_average_price :: rat
  md_price_min :: rat
  md_price_max :: rat
  md_mileage_average :: int
  md_listings_count :: pyval
  md_last_updated :: int

record negotiation =
  n_id :: nat
  n_client_id :: nat
  n_trade_in_vehicle_id :: "nat option"
  n_target_vehicle_id :: "nat option"
  n_status :: string
  n_negotiation_rounds :: int
  n_max_rounds :: int
  n_trade_in_offered_value :: "rat option"
  n_final_price :: "rat option"
  n_margin_achieved :: "rat option"
  n_agent_reasoning :: pyval
  n_market_analysis :: pyval
  n_ended_at :: "int option"

record offer =
  o_negotiation_id :: nat
  o_offer_type :: pyval
  o_vehicle_id :: nat
  o_trade_in_value :: rat
  o_purchase_price :: "rat option"
  o_monthly_payment :: "rat option"
  o_duration_months :: pyval
  o_total_cost :: rat
  o_warranty_months :: pyval
  o_maintenance_included :: pyval
  o_insurance_included :: pyval
  o_justification :: pyval
  o_confidence_score :: rat

record negotiation_round =
  r_negotiation_id :: nat
  r_round_number :: int
  r_agent_proposal :: pyval
  r_agent_reasoning :: pyval
  r_client_feedback :: string
  r_round_status :: string

text \<open>
  The database: one list of rows per table, in order of creation. Django runs every
  \<open>create\<close> and \<open>save\<close> in its own transaction (autocommit), and no function of the
  orchestrator opens a transaction, so each write is in the database as soon as it returns.
\<close>

record db =
  clients :: "client list"
  vehicles :: "vehicle list"
  market :: "market_data list"
  negotiations :: "negotiation list"
  offers :: "offer list"
  rounds :: "negotiation_round list"

section \<open>The collaborators of one call\<close>

text \<open>
  What a scraper returns when it succeeds (negotiation/scrapers.py): a dictionary with
  the source's name and its average price, and for the listing sites the smallest and
  largest price and the number of listings. A key that a dictionary lacks is \<open>None\<close>.
\<close>

record source_data =
  sd_source :: string
  sd_average_price :: "rat option"
  sd_min_price :: "rat option"
  sd_max_price :: "rat option"
  sd_listings_count :: "nat option"

text \<open>
  Everything outside the repository's code that one call depends on:

  \<^item> the clock, and the setting \<open>USE_TZ\<close> of the project's settings module, which is not
    among the sources: with it the time stamps read from the database are aware of
    their time zone;
  \<^item> the \<open>decimal\<close> module: addition and division in the current context, which round
    their result to the context's precision, and the parser of decimal literals;
  \<^item> the four web scrapers and the answers of the language-model agents;
  \<^item> the database layer (Django and the database of the settings module): for each
    kind of row what a write stores for the object it is given, or the exception it
    raises. It rounds a decimal to the scale of its column, reads an integer column
    with \<open>int(...)\<close>, serialises JSON, and rejects what a column cannot hold.
\<close>

record env =
  now :: int
  aware_datetimes :: bool
  decimal_add :: "rat \<Rightarrow> rat \<Rightarrow> rat"
  decimal_div :: "rat \<Rightarrow> nat \<Rightarrow> rat"
  decimal_parse :: "string \<Rightarrow> rat option"
  scrape_leboncoin :: "string \<Rightarrow> string \<Rightarrow> int \<Rightarrow> string \<Rightarrow> source_data option"
  scrape_webmoteurs :: "string \<Rightarrow> string \<Rightarrow> int \<Rightarrow> source_data option"
  scrape_caradisiac :: "string \<Rightarrow> string \<Rightarrow> int \<Rightarrow> source_data option"
  scrape_argus :: "string \<Rightarrow> string \<Rightarrow> int \<Rightarrow> source_data option"
  analyze_market :: "vehicle \<Rightarrow> dict \<Rightarrow> pyval"
  negotiator_strategy :: "client \<Rightarrow> vehicle \<Rightarrow> pyval \<Rightarrow> rat \<Rightarrow> pyval"
  structure_offer :: "vehicle \<Rightarrow> rat \<Rightarrow> string list \<Rightarrow> rat \<times> rat \<Rightarrow> pyval list"
  process_round :: "offer \<Rightarrow> string \<Rightarrow> int \<Rightarrow> int \<Rightarrow> error + dict"
  write_market_data :: "market_data \<Rightarrow> error + market_data"
  write_negotiation :: "negotiation \<Rightarrow> error + negotiation"
  write_offer :: "offer \<Rightarrow> error + offer"
  write_round :: "negotiation_round \<Rightarrow> error + negotiation_round"

section \<open>Rows as the database stores them\<close>

text \<open>
  The row that a write of an object stores. The keys, the integer counters, the status
  and the client's feedback are values of their column's type already and are stored as
  they are; every other column holds what the database layer makes of the attribute.
\<close>

definition stored_market_data :: "env \<Rightarrow> market_data \<Rightarrow> error + market_data" where
  "stored_market_data e m =
     map_sum id
       (\<lambda>row. row\<lparr>md_make := md_make m, md_model := md_model m, md_year := md_year m,
                   md_fuel_type := md_fuel_type m\<rparr>)
       (write_market_data e m)"

definition stored_negotiation :: "env \<Rightarrow> negotiation \<Rightarrow> error + negotiation" where
  "stored_negotiation e n =
     map_sum id
       (\<lambda>row. row\<lparr>n_id := n_id n, n_client_id := n_client_id n,
                   n_trade_in_vehicle_id := n_trade_in_vehicle_id n,
                   n_target_vehicle_id := n_target_vehicle_id n,
                   n_status := n_status n,
                   n_negotiation_rounds := n_negotiation_rounds n,
                   n_max_rounds := n_max_rounds n\<rparr>)
       (write_negotiation e n)"

definition stored_offer :: "env \<Rightarrow> offer \<Rightarrow> error + offer" where
  "stored_offer e off =
     map_sum id
       (\<lambda>row. row\<lparr>o_negotiation_id := o_negotiation_id off, o_vehicle_id := o_vehicle_id off\<rparr>)
       (write_offer e off)"

definition stored_round :: "env \<Rightarrow> negotiation_round \<Rightarrow> error + negotiation_round" where
  "stored_round e r =
     map_sum id
       (\<lambda>row. row\<lparr>r_negotiation_id := r_negotiation_id r, r_round_number := r_round_number r,
                   r_client_feedback := r_client_feedback r, r_round_status := r_round_status r\<rparr>)
       (write_round e r)"

section \<open>Market data (scrapers.py, orchestration.py)\<close>

record scraped =
  sc_sources :: "(string \<times> source_data) list"
  sc_aggregate :: "dict option"

text \<open>
  \<open>sum(prices)\<close> on a list of \<open>Decimal\<close>: the additions of the decimal context, from the
  left, starting at 0.
\<close>

definition decimal_sum :: "env \<Rightarrow> rat list \<Rightarrow> rat" where
  "decimal_sum e prices = foldl (decimal_add e) 0 prices"

text \<open>\<open>MarketDataScraper.aggregate_market_data\<close>.\<close>

definition aggregate_market_data :: "env \<Rightarrow> string \<Rightarrow> string \<Rightarrow> int \<Rightarrow> string \<Rightarrow> scraped" where
  "aggregate_market_data e make' model' year' fuel' =
     (let sources =
            [(''leboncoin'', scrape_leboncoin e make' model' year' fuel'),
             (''webmoteurs'', scrape_webmoteurs e make' model' year'),
             (''caradisiac'', scrape_caradisiac e make' model' year'),
             (''argus'', scrape_argus e make' model' year')];
          named = List.map_filter (\<lambda>(name, data). map_option (Pair name) data) sources;
          valid_sources = map snd named;
          prices = List.map_filter sd_average_price valid_sources
      in \<lparr>sc_sources = named,
          sc_aggregate =
            (if valid_sources \<noteq> [] \<and> prices \<noteq> [] then
               Some [(''average_price'', PDec (decimal_div e (decimal_sum e prices) (length prices))),
                     (''min_price'', PDec (Min (set prices))),
                     (''max_price'', PDec (Max (set prices))),
                     (''sources_count'', PNum (of_nat (length valid_sources)))]
             else None)\<rparr>)"

text \<open>\<open>NegotiationOrchestrator._market_data_to_dict\<close>.\<close>

definition market_data_to_dict :: "market_data \<Rightarrow> dict" where
  "market_data_to_dict md =
     [(''average_price'', PNum (md_average_price md)),
      (''price_min'', PNum (md_price_min md)),
      (''price_max'', PNum (md_price_max md)),
      (''listings_count'', md_listings_count md),
      (''mileage_average'', PNum (of_int (md_mileage_average md)))]"

text \<open>
  The cached row of a vehicle: \<open>MarketData.objects.filter(...).first()\<close>. The four columns
  are unique together, so at most one row matches.
\<close>

definition cached_market_data :: "db \<Rightarrow> vehicle \<Rightarrow> market_data option" where
  "cached_market_data d v =
     find (\<lambda>m. md_make m = v_make v \<and> md_model m = v_model v
              \<and> md_year m = v_year v \<and> md_fuel_type m = v_fuel_type v) (market d)"

text \<open>
  \<open>(datetime.now() - market_data.last_updated).days < 1\<close>. \<open>datetime.now()\<close> has no time
  zone; when the time stamps of the database are aware of theirs the subtraction raises
  \<open>TypeError\<close>. Otherwise the days of the difference round down.
\<close>

definition is_fresh :: "env \<Rightarrow> market_data \<Rightarrow> error + bool" where
  "is_fresh e m =
     (if aware_datetimes e then Inl TypeError
      else Inr ((now e - md_last_updated m) div 86400 < 1))"

text \<open>
  \<open>MarketData.objects.update_or_create\<close>: the row of the key is overwritten, or a new
  row is added.
\<close>

definition update_or_create :: "market_data \<Rightarrow> market_data list \<Rightarrow> market_data list" where
  "update_or_create row tbl =
     (let same = (\<lambda>m. md_make m = md_make row \<and> md_model m = md_model row
                     \<and> md_year m = md_year row \<and> md_fuel_type m = md_fuel_type row)
      in if list_ex same tbl then map (\<lambda>m. if same m then row else m) tbl
         else tbl @ [row])"

text \<open>
  \<open>NegotiationOrchestrator._get_or_scrape_market_data\<close>. The test of freshness is made
  only when there is a cached row. The dictionary of defaults is built entry by entry
  before \<open>update_or_create\<close> is called, so a missing key of the aggregate raises before
  anything is written; \<open>last_updated\<close> is set at the write (\<open>auto_now\<close>). The dictionary
  returned after a write is made of the object, not of the stored row.
\<close>

definition get_or_scrape_market_data :: "env \<Rightarrow> db \<Rightarrow> vehicle \<Rightarrow> (error + dict) \<times> db" where
  "get_or_scrape_market_data e d v =
     (case (case cached_market_data d v of
              None \<Rightarrow> Inr None
            | Some m \<Rightarrow> map_sum id (\<lambda>fresh. if fresh then Some m else None) (is_fresh e m)) of
        Inl err \<Rightarrow> (Inl err, d)
      | Inr (Some m) \<Rightarrow> (Inr (market_data_to_dict m), d)
      | Inr None \<Rightarrow>
         (case sc_aggregate (aggregate_market_data e (v_make v) (v_model v) (v_year v) (v_fuel_type v)) of
            Some agg \<Rightarrow>
              (case and_then (subscript agg ''average_price'') (decimal_of_str (decimal_parse e)) of
                 Inl err \<Rightarrow> (Inl err, d)
               | Inr average_price \<Rightarrow>
              (case and_then (subscript agg ''min_price'') (decimal_of_str (decimal_parse e)) of
                 Inl err \<Rightarrow> (Inl err, d)
               | Inr price_min \<Rightarrow>
              (case and_then (subscript agg ''max_price'') (decimal_of_str (decimal_parse e)) of
                 Inl err \<Rightarrow> (Inl err, d)
               | Inr price_max \<Rightarrow>
              (case subscript agg ''listings_count'' of
                 Inl err \<Rightarrow> (Inl err, d)
               | Inr listings_count \<Rightarrow>
                  (let obj = \<lparr>md_make = v_make v, md_model = v_model v, md_year = v_year v,
                              md_fuel_type = v_fuel_type v, md_average_price = average_price,
                              md_price_min = price_min, md_price_max = price_max,
                              md_mileage_average = 0, md_listings_count = listings_count,
                              md_last_updated = now e\<rparr>
                   in case stored_market_data e obj of
                        Inl err \<Rightarrow> (Inl err, d)
                      | Inr row \<Rightarrow>
                          (Inr (market_data_to_dict obj),
                           d\<lparr>market := update_or_create row (market d)\<rparr>))))))
          | None \<Rightarrow>
              (Inr [(''average_price'', PDec (v_current_market_value v)),
                    (''min_price'', PDec (v_current_market_value v * (9 / 10))),
                    (''max_price'', PDec (v_current_market_value v * (11 / 10))),
                    (''listings_count'', PNum 0)], d)))"

section \<open>The orchestrator (negotiation/orchestration.py)\<close>

text \<open>A row by its primary key, and the key that the database gives to a new row.\<close>

definition get_client :: "db \<Rightarrow> nat \<Rightarrow> client option" where
  "get_client d i = find (\<lambda>c. c_id c = i) (clients d)"

definition get_vehicle :: "db \<Rightarrow> nat \<Rightarrow> vehicle option" where
  "get_vehicle d i = find (\<lambda>v. v_id v = i) (vehicles d)"

definition get_negotiation :: "db \<Rightarrow> nat \<Rightarrow> negotiation option" where
  "get_negotiation d i = find (\<lambda>n. n_id n = i) (negotiations d)"

definition fresh_id :: "nat list \<Rightarrow> nat" where
  "fresh_id ids = Suc (fold max ids 0)"

text \<open>
  The effect of \<open>negotiation.save()\<close> on the table: the row of the same key is replaced
  by the row that the write stores.
\<close>

definition save_negotiation :: "negotiation \<Rightarrow> db \<Rightarrow> db" where
  "save_negotiation n d =
     d\<lparr>negotiations := map (\<lambda>r. if n_id r = n_id n then n else r) (negotiations d)\<rparr>"

text \<open>
  \<open>x or default\<close> on an optional \<open>Decimal\<close>: \<open>None\<close> and zero are both false.
\<close>

definition or_default :: "rat option \<Rightarrow> rat \<Rightarrow> rat" where
  "or_default x dflt = (case x of None \<Rightarrow> dflt | Some r \<Rightarrow> if r = 0 then dflt else r)"

text \<open>
  \<open>_find_suitable_vehicle\<close>. The default ordering of vehicles is newest first, so
  \<open>first()\<close> is the last row created among those that pass the filters.
\<close>

definition find_suitable_vehicle :: "db \<Rightarrow> client \<Rightarrow> vehicle option" where
  "find_suitable_vehicle d c =
     (let q0 = filter v_in_stock (vehicles d);
          q1 = (if c_preferred_fuel c \<noteq> []
                then filter (\<lambda>v. v_fuel_type v = c_preferred_fuel c) q0 else q0);
          q2 = (if c_preferred_transmission c \<noteq> []
                then filter (\<lambda>v. v_transmission v = c_preferred_transmission c) q1 else q1);
          q3 = (if or_default (c_budget_min c) 0 \<noteq> 0 \<and> or_default (c_budget_max c) 0 \<noteq> 0
                then filter (\<lambda>v. the (c_budget_min c) \<le> v_current_market_value v
                                  \<and> v_current_market_value v \<le> the (c_budget_max c)) q2
                else q2)
      in if q3 = [] then None else Some (last q3))"

text \<open>
  \<open>NegotiationAgent.initiate_negotiation\<close> (negotiation/agents.py). The prompt formats
  the mileage of the trade-in vehicle with a thousands separator; without a trade-in
  vehicle the orchestrator passes an empty dictionary, the mileage is \<open>None\<close>, and the
  format raises \<open>TypeError\<close>. Otherwise the answer is the language model's.
\<close>

definition negotiator_initiate_negotiation ::
  "env \<Rightarrow> client \<Rightarrow> vehicle option \<Rightarrow> pyval \<Rightarrow> rat \<Rightarrow> error + pyval" where
  "negotiator_initiate_negotiation e c trade_in market_analysis target_margin =
     (case trade_in of
        None \<Rightarrow> Inl TypeError
      | Some v \<Rightarrow> Inr (negotiator_strategy e c v market_analysis target_margin))"

text \<open>
  \<open>NegotiationOrchestrator.initiate_negotiation\<close>. The negotiation is created, saved
  when a suitable vehicle is found for a call without a target vehicle, and saved again
  with the strategy of the negotiator.
\<close>

definition initiate_negotiation ::
  "env \<Rightarrow> db \<Rightarrow> nat \<Rightarrow> nat option \<Rightarrow> nat option \<Rightarrow> rat \<Rightarrow> (error + negotiation) \<times> db" where
  "initiate_negotiation e d client_id trade_in_vehicle_id target_vehicle_id business_margin_target =
     (case get_client d client_id of
        None \<Rightarrow> (Inl DoesNotExist, d)
      | Some c \<Rightarrow>
          (let n0 = \<lparr>n_id = fresh_id (map n_id (negotiations d)), n_client_id = client_id,
                     n_trade_in_vehicle_id = trade_in_vehicle_id,
                     n_target_vehicle_id = target_vehicle_id,
                     n_status = ''initiated'', n_negotiation_rounds = 0, n_max_rounds = 10,
                     n_trade_in_offered_value = None, n_final_price = None,
                     n_margin_achieved = None, n_agent_reasoning = PDict [],
                     n_market_analysis = PDict [], n_ended_at = None\<rparr>
           in case stored_negotiation e n0 of
                Inl err \<Rightarrow> (Inl err, d)
              | Inr row0 \<Rightarrow>
          (let d1 = d\<lparr>negotiations := negotiations d @ [row0]\<rparr>;
               found = (if target_vehicle_id = None \<or> target_vehicle_id = Some 0
                        then find_suitable_vehicle d1 c else None);
               n1 = (case found of None \<Rightarrow> n0 | Some tv \<Rightarrow> n0\<lparr>n_target_vehicle_id := Some (v_id tv)\<rparr>)
           in case (if found = None then Inr d1
                    else map_sum id (\<lambda>row1. save_negotiation row1 d1) (stored_negotiation e n1)) of
                Inl err \<Rightarrow> (Inl err, d1)
              | Inr d2 \<Rightarrow>
                 (case (case n_trade_in_vehicle_id n1 of
                          None \<Rightarrow> Inr None
                        | Some vid \<Rightarrow>
                            (case get_vehicle d2 vid of
                               None \<Rightarrow> Inl DoesNotExist
                             | Some v \<Rightarrow> Inr (Some v))) of
                    Inl err \<Rightarrow> (Inl err, d2)
                  | Inr trade_in \<Rightarrow>
                     (case (case trade_in of
                              None \<Rightarrow> (Inr n1, d2)
                            | Some v \<Rightarrow>
                                (case get_or_scrape_market_data e d2 v of
                                   (Inl err, d3) \<Rightarrow> (Inl err, d3)
                                 | (Inr market_data, d3) \<Rightarrow>
                                     (Inr (n1\<lparr>n_market_analysis := analyze_market e v market_data\<rparr>), d3))) of
                        (Inl err, d3) \<Rightarrow> (Inl err, d3)
                      | (Inr n2, d3) \<Rightarrow>
                         (case negotiator_initiate_negotiation e c trade_in
                                 (n_market_analysis n2) business_margin_target of
                            Inl err \<Rightarrow> (Inl err, d3)
                          | Inr strategy \<Rightarrow>
                              (let n3 = n2\<lparr>n_agent_reasoning := strategy, n_status := ''in_progress''\<rparr>
                               in case stored_negotiation e n3 of
                                    Inl err \<Rightarrow> (Inl err, d3)
                                  | Inr row3 \<Rightarrow> (Inr n3, save_negotiation row3 d3))))))))"

text \<open>
  The fields of a new offer, from the first proposal of the offer generator: the keyword
  arguments of \<open>Offer.objects.create\<close>, evaluated in their order.
\<close>

definition offer_of_proposal :: "env \<Rightarrow> negotiation \<Rightarrow> vehicle \<Rightarrow> dict \<Rightarrow> error + offer" where
  "offer_of_proposal e n tv best_offer =
     and_then (decimal_of_str (decimal_parse e) (get_default best_offer ''purchase_price'' (PNum 0)))
       (\<lambda>purchase_price.
     and_then (if truthy (get best_offer ''monthly_payment'')
               then map_sum id Some
                      (decimal_of_str (decimal_parse e) (get_default best_offer ''monthly_payment'' (PNum 0)))
               else Inr None)
       (\<lambda>monthly_payment.
     and_then (decimal_of_str (decimal_parse e) (get_default best_offer ''total_cost'' (PNum 0)))
       (\<lambda>total_cost.
     and_then (decimal_of_str (decimal_parse e) (get_default best_offer ''confidence_score'' (PNum 0)))
       (\<lambda>confidence_score.
          Inr \<lparr>o_negotiation_id = n_id n,
               o_offer_type = get_default best_offer ''offer_type'' (PStr ''achat''),
               o_vehicle_id = v_id tv,
               o_trade_in_value = or_default (n_trade_in_offered_value n) 0,
               o_purchase_price = Some purchase_price,
               o_monthly_payment = monthly_payment,
               o_duration_months = get best_offer ''duration_months'',
               o_total_cost = total_cost,
               o_warranty_months = get_default best_offer ''warranty_months'' (PNum 12),
               o_maintenance_included = get_default best_offer ''maintenance_included'' (PBool False),
               o_insurance_included = get_default best_offer ''insurance_included'' (PBool False),
               o_justification = get_default best_offer ''reasoning'' (PStr []),
               o_confidence_score = confidence_score\<rparr>))))"

text \<open>
  \<open>NegotiationOrchestrator._create_initial_offer\<close>. \<open>Offer.objects.create\<close> returns the
  object made of the keyword arguments; the table gets the row that the write stores.
\<close>

definition create_initial_offer :: "env \<Rightarrow> db \<Rightarrow> negotiation \<Rightarrow> (error + offer) \<times> db" where
  "create_initial_offer e d n =
     (case n_target_vehicle_id n of
        None \<Rightarrow> (Inl (ValueError ''Target vehicle not set for negotiation''), d)
      | Some vid \<Rightarrow>
     (case get_vehicle d vid of
        None \<Rightarrow> (Inl DoesNotExist, d)
      | Some tv \<Rightarrow>
     (case get_or_scrape_market_data e d tv of
        (Inl err, d1) \<Rightarrow> (Inl err, d1)
      | (Inr market_data, d1) \<Rightarrow>
     (case get_client d1 (n_client_id n) of
        None \<Rightarrow> (Inl DoesNotExist, d1)
      | Some c \<Rightarrow>
         (let offer_types = (if c_subscription_preference c \<noteq> ''flexible''
                             then [c_subscription_preference c]
                             else [''achat'', ''lld'', ''abonnement'']);
              client_budget = (or_default (c_budget_min c) 10000, or_default (c_budget_max c) 50000);
              proposals = structure_offer e tv (or_default (n_trade_in_offered_value n) 0)
                            offer_types client_budget
          in case proposals of
               [] \<Rightarrow> (Inl (ValueError ''No offers could be generated''), d1)
             | PDict best_offer # rest \<Rightarrow>
                 (case offer_of_proposal e n tv best_offer of
                    Inl err \<Rightarrow> (Inl err, d1)
                  | Inr off \<Rightarrow>
                      (case stored_offer e off of
                         Inl err \<Rightarrow> (Inl err, d1)
                       | Inr row \<Rightarrow> (Inr off, d1\<lparr>offers := offers d1 @ [row]\<rparr>)))
             | other # rest \<Rightarrow> (Inl AttributeError, d1))))))"

text \<open>
  \<open>negotiation.offers.order_by('-created_at').first()\<close>: the offer of the negotiation
  that was created last.
\<close>

definition latest_offer :: "db \<Rightarrow> nat \<Rightarrow> offer option" where
  "latest_offer d i =
     (case filter (\<lambda>off. o_negotiation_id off = i) (offers d) of
        [] \<Rightarrow> None
      | x # xs \<Rightarrow> Some (last (x # xs)))"

text \<open>
  The end of a round: when the advisor's answer has a true \<open>should_conclude\<close> the status,
  the final price, the margin and the end time are set on the object.
\<close>

definition conclude :: "env \<Rightarrow> dict \<Rightarrow> negotiation \<Rightarrow> error + negotiation" where
  "conclude e round_result n =
     (if truthy (get_default round_result ''should_conclude'' (PBool False)) then
        and_then (decimal_of_str (decimal_parse e) (get_default round_result ''final_price'' (PNum 0)))
          (\<lambda>final_price.
        and_then (decimal_of_str (decimal_parse e) (get_default round_result ''margin'' (PNum 0)))
          (\<lambda>margin.
             Inr (n\<lparr>n_status := ''concluded'', n_final_price := Some final_price,
                    n_margin_achieved := Some margin, n_ended_at := Some (now e)\<rparr>)))
      else Inr n)"

text \<open>
  The current best offer of a round: the latest offer of the negotiation, or a new initial
  offer when it has none.
\<close>

definition current_best_offer :: "env \<Rightarrow> db \<Rightarrow> negotiation \<Rightarrow> (error + offer) \<times> db" where
  "current_best_offer e d n =
     (case latest_offer d (n_id n) of
        Some off \<Rightarrow> (Inr off, d)
      | None \<Rightarrow> create_initial_offer e d n)"

text \<open>The row that \<open>NegotiationRound.objects.create\<close> adds for a round.\<close>

definition round_record :: "negotiation \<Rightarrow> dict \<Rightarrow> string \<Rightarrow> negotiation_round" where
  "round_record n round_result client_feedback =
     \<lparr>r_negotiation_id = n_id n,
      r_round_number = n_negotiation_rounds n,
      r_agent_proposal = get_default round_result ''proposed_offer'' (PDict []),
      r_agent_reasoning = get_default round_result ''reasoning'' (PStr []),
      r_client_feedback = client_feedback,
      r_round_status = ''ongoing''\<rparr>"

text \<open>The dictionary that a completed round returns.\<close>

definition round_response :: "negotiation \<Rightarrow> dict \<Rightarrow> dict" where
  "round_response n round_result =
     [(''round_number'', PNum (of_int (n_negotiation_rounds n))),
      (''proposed_offer'', get_default round_result ''proposed_offer'' (PDict [])),
      (''status'', PStr (n_status n)),
      (''should_continue'', PBool (\<not> truthy (get_default round_result ''should_conclude'' (PBool False)))),
      (''confidence'', get_default round_result ''confidence_score'' (PNum 0))]"

text \<open>
  \<open>NegotiationOrchestrator.execute_negotiation_round\<close>. The counter is incremented on the
  object; the round record is created in the database; the terms of a conclusion are set
  on the object; the object is saved. The result reports the status of the object. Each
  \<open>except\<close> clause logs and re-raises the exception as it is.
\<close>

definition execute_negotiation_round :: "env \<Rightarrow> db \<Rightarrow> nat \<Rightarrow> string \<Rightarrow> (error + dict) \<times> db" where
  "execute_negotiation_round e d negotiation_id client_feedback =
     (case get_negotiation d negotiation_id of
        None \<Rightarrow> (Inl DoesNotExist, d)
      | Some n0 \<Rightarrow>
          if n_negotiation_rounds n0 \<ge> n_max_rounds n0
          then (Inr [(''status'', PStr ''max_rounds_reached'')], d)
          else
            (let n1 = n0\<lparr>n_negotiation_rounds := n_negotiation_rounds n0 + 1\<rparr> in
             case current_best_offer e d n1 of
               (Inl err, d1) \<Rightarrow> (Inl err, d1)
             | (Inr current_offer, d1) \<Rightarrow>
            (case process_round e current_offer client_feedback
                    (n_negotiation_rounds n1) (n_max_rounds n1) of
               Inl err \<Rightarrow> (Inl err, d1)
             | Inr round_result \<Rightarrow>
            (case stored_round e (round_record n1 round_result client_feedback) of
               Inl err \<Rightarrow> (Inl err, d1)
             | Inr round_row \<Rightarrow>
                 (let d2 = d1\<lparr>rounds := rounds d1 @ [round_row]\<rparr>
                  in case conclude e round_result n1 of
                       Inl err \<Rightarrow> (Inl err, d2)
                     | Inr n2 \<Rightarrow>
                         (case stored_negotiation e n2 of
                            Inl err \<Rightarrow> (Inl err, d2)
                          | Inr row \<Rightarrow>
                              (Inr (round_response n2 round_result), save_negotiation row d2)))))))"

text \<open>
  The data of the scrapers that returned some, in the order in which they are called.
\<close>

definition succeeding_sources :: "env \<Rightarrow> string \<Rightarrow> string \<Rightarrow> int \<Rightarrow> string \<Rightarrow> source_data list" where
  "succeeding_sources e make' model' year' fuel' =
     List.map_filter id
       [scrape_leboncoin e make' model' year' fuel', scrape_webmoteurs e make' model' year',
        scrape_caradisiac e make' model' year', scrape_argus e make' model' year']"

text \<open>
  The arithmetic mean of the specification's words, in exact arithmetic.
\<close>

definition arithmetic_mean :: "rat list \<Rightarrow> rat" where
  "arithmetic_mean xs = sum_list xs / of_nat (length xs)"


text \<open>
  A decimal context that rounds within the relative error \<open>eps\<close>: the sum and the quotient
  it returns differ from the exact ones by at most \<open>eps\<close> times their size. The default
  context of the \<open>decimal\<close> module keeps 28 significant digits and rounds to the nearest,
  which is \<open>eps = 5 / 10 ^ 28\<close>.
\<close>

definition rounds_within :: "rat \<Rightarrow> env \<Rightarrow> bool" where
  "rounds_within eps e \<longleftrightarrow>
     (\<forall>a b. \<bar>decimal_add e a b - (a + b)\<bar> \<le> eps * \<bar>a + b\<bar>) \<and>
     (\<forall>s n. 0 < n \<longrightarrow> \<bar>decimal_div e s n - s / of_nat n\<bar> \<le> eps * \<bar>s / of_nat n\<bar>)"

section \<open>Example data\<close>

text \<open>
  A process without network and without an API key: every scraper fails and every agent
  answers with the mock text of \<open>AIAgent._mock_response\<close>, which holds no JSON. Its time
  stamps have no time zone. No text is read as a decimal in the examples, the decimal
  context adds and divides their numbers without rounding, and the database stores their
  objects as they are (their decimals have at most two places). The vehicles and the
  client are those of negotiation/tests.py.
\<close>

definition mock_response :: string where
  "mock_response = ''Mock response - API not configured''"

definition offline_env :: env where
  "offline_env =
     \<lparr>now = 1700000000,
      aware_datetimes = False,
      decimal_add = (\<lambda>a b. a + b),
      decimal_div = (\<lambda>s n. s / of_nat n),
      decimal_parse = (\<lambda>s. None),
      scrape_leboncoin = (\<lambda>mk mo yr fu. None),
      scrape_webmoteurs = (\<lambda>mk mo yr. None),
      scrape_caradisiac = (\<lambda>mk mo yr. None),
      scrape_argus = (\<lambda>mk mo yr. None),
      analyze_market = (\<lambda>v md. PDict [(''raw_analysis'', PStr mock_response)]),
      negotiator_strategy = (\<lambda>c v ma t. PDict [(''raw_strategy'', PStr mock_response)]),
      structure_offer = (\<lambda>tv t ks b. []),
      process_round = (\<lambda>off fb k m. Inr [(''raw_result'', PStr mock_response)]),
      write_market_data = Inr,
      write_negotiation = Inr,
      write_offer = Inr,
      write_round = Inr\<rparr>"

definition clio :: vehicle where
  "clio = \<lparr>v_id = 1, v_make = ''Renault'', v_model = ''Clio'', v_year = 2019,
           v_fuel_type = ''essence'', v_transmission = ''manuelle'',
           v_current_market_value = 12000, v_in_stock = False\<rparr>"

definition peugeot :: vehicle where
  "peugeot = \<lparr>v_id = 2, v_make = ''Peugeot'', v_model = ''3008'', v_year = 2022,
              v_fuel_type = ''diesel'', v_transmission = ''automatique'',
              v_current_market_value = 32000, v_in_stock = True\<rparr>"

definition jean :: client where
  "jean = \<lparr>c_id = 1, c_preferred_fuel = [], c_preferred_transmission = [],
           c_budget_min = Some 25000, c_budget_max = Some 40000,
           c_subscription_preference = ''achat''\<rparr>"

definition showroom :: db where
  "showroom = \<lparr>clients = [jean], vehicles = [clio, peugeot], market = [],
               negotiations = [], offers = [], rounds = []\<rparr>"

text \<open>
  A cached row that is thirty hours old.
\<close>

definition stale_row :: market_data where
  "stale_row = \<lparr>md_make = ''Peugeot'', md_model = ''3008'', md_year = 2022, md_fuel_type = ''diesel'',
     md_average_price = 31500, md_price_min = 29000, md_price_max = 34000, md_mileage_average = 20000,
     md_listings_count = PNum 12, md_last_updated = 1700000000 - 30 * 3600\<rparr>"

text \<open>A cached row that is one hour old, and the databases holding one of the rows.\<close>

definition fresh_row :: market_data where
  "fresh_row = stale_row\<lparr>md_last_updated := 1700000000 - 3600\<rparr>"

definition stale_cache :: db where
  "stale_cache = showroom\<lparr>market := [stale_row]\<rparr>"

definition fresh_cache :: db where
  "fresh_cache = showroom\<lparr>market := [fresh_row]\<rparr>"

text \<open>The fallback snapshot of the Peugeot.\<close>

definition peugeot_fallback :: dict where
  "peugeot_fallback = [(''average_price'', PDec 32000), (''min_price'', PDec 28800),
                       (''max_price'', PDec 35200), (''listings_count'', PNum 0)]"

text \<open>The offline process of a project whose time stamps are aware of their time zone.\<close>

definition aware_env :: env where
  "aware_env = offline_env\<lparr>aware_datetimes := True\<rparr>"

text \<open>
  Two listing sites answer.
\<close>

definition two_sources_env :: env where
  "two_sources_env = offline_env
     \<lparr>scrape_leboncoin := (\<lambda>mk mo yr fu. Some \<lparr>sd_source = ''leboncoin'', sd_average_price = Some 30000,
         sd_min_price = Some 28000, sd_max_price = Some 33000, sd_listings_count = Some 10\<rparr>),
      scrape_webmoteurs := (\<lambda>mk mo yr. Some \<lparr>sd_source = ''webmoteurs'', sd_average_price = Some 32000,
         sd_min_price = Some 30000, sd_max_price = Some 36000, sd_listings_count = Some 15\<rparr>)\<rparr>"

text \<open>
  A negotiation of the client for the Peugeot with the Clio as trade-in, as
  \<open>initiate_negotiation\<close> leaves it, before any round and before any offer.
\<close>

definition deal :: negotiation where
  "deal = \<lparr>n_id = 1, n_client_id = 1, n_trade_in_vehicle_id = Some 1, n_target_vehicle_id = Some 2,
           n_status = ''in_progress'', n_negotiation_rounds = 0, n_max_rounds = 10,
           n_trade_in_offered_value = None, n_final_price = None, n_margin_achieved = None,
           n_agent_reasoning = PDict [(''raw_strategy'', PStr mock_response)],
           n_market_analysis = PDict [(''raw_analysis'', PStr mock_response)],
           n_ended_at = None\<rparr>"

text \<open>An offer that the negotiation already has, and the database holding it.\<close>

definition purchase_offer :: offer where
  "purchase_offer = \<lparr>o_negotiation_id = 1, o_offer_type = PStr ''achat'', o_vehicle_id = 2,
      o_trade_in_value = 0, o_purchase_price = Some 38400, o_monthly_payment = None,
      o_duration_months = PNone, o_total_cost = 38400, o_warranty_months = PNum 24,
      o_maintenance_included = PBool False, o_insurance_included = PBool False,
      o_justification = PStr ''Prix catalogue'', o_confidence_score = 60\<rparr>"

definition open_deal :: db where
  "open_deal = showroom\<lparr>negotiations := [deal], offers := [purchase_offer]\<rparr>"

text \<open>
  Proposals of the offer generator: a purchase, a complete lease with a higher confidence
  score, and a lease that names neither a monthly payment nor a duration.
\<close>

definition purchase_proposal :: pyval where
  "purchase_proposal = PDict [(''offer_type'', PStr ''achat''), (''purchase_price'', PNum 38400),
      (''total_cost'', PNum 38400), (''warranty_months'', PNum 24),
      (''reasoning'', PStr ''Prix catalogue''), (''confidence_score'', PNum 60)]"

definition lease_proposal :: pyval where
  "lease_proposal = PDict [(''offer_type'', PStr ''lld''), (''monthly_payment'', PNum 450),
      (''duration_months'', PNum 36), (''total_cost'', PNum 16200), (''confidence_score'', PNum 95)]"

definition bare_lease_proposal :: pyval where
  "bare_lease_proposal = PDict [(''offer_type'', PStr ''lld''), (''total_cost'', PNum 16200),
      (''confidence_score'', PNum 80)]"

text \<open>The offline process with a given answer of the offer generator, or of the advisor.\<close>

definition generator_env :: "pyval list \<Rightarrow> env" where
  "generator_env proposals = offline_env\<lparr>structure_offer := (\<lambda>tv t ks b. proposals)\<rparr>"

definition advisor_env :: "dict \<Rightarrow> env" where
  "advisor_env round_result = offline_env\<lparr>process_round := (\<lambda>off fb k m. Inr round_result)\<rparr>"

text \<open>The database with the negotiation and no offer, and the offers made of the leases.\<close>

definition new_deal :: db where
  "new_deal = showroom\<lparr>negotiations := [deal]\<rparr>"

definition bare_lease_offer :: offer where
  "bare_lease_offer = \<lparr>o_negotiation_id = 1, o_offer_type = PStr ''lld'', o_vehicle_id = 2,
      o_trade_in_value = 0, o_purchase_price = Some 0, o_monthly_payment = None,
      o_duration_months = PNone, o_total_cost = 16200, o_warranty_months = PNum 12,
      o_maintenance_included = PBool False, o_insurance_included = PBool False,
      o_justification = PStr [], o_confidence_score = 80\<rparr>"

definition lease_offer :: offer where
  "lease_offer = \<lparr>o_negotiation_id = 1, o_offer_type = PStr ''lld'', o_vehicle_id = 2,
      o_trade_in_value = 0, o_purchase_price = Some 0, o_monthly_payment = Some 450,
      o_duration_months = PNum 36, o_total_cost = 16200, o_warranty_months = PNum 12,
      o_maintenance_included = PBool False, o_insurance_included = PBool False,
      o_justification = PStr [], o_confidence_score = 95\<rparr>"

text \<open>
  The negotiation after its tenth round, which is its last.
\<close>

definition spent_deal :: db where
  "spent_deal = showroom\<lparr>negotiations := [deal\<lparr>n_negotiation_rounds := 10\<rparr>], offers := [purchase_offer]\<rparr>"

text \<open>
  Answers of the advisor: the conclusion of Scenario D of the specification, a conclusion
  whose final price is the JSON \<open>null\<close>, one whose margin is, one that names no terms,
  and one whose terms are zero.
\<close>

definition scenario_d :: dict where
  "scenario_d = [(''should_conclude'', PBool True), (''final_price'', PNum 289000),
                 (''margin'', PNum (25 / 2))]"

definition null_price :: dict where
  "null_price = [(''should_conclude'', PBool True), (''final_price'', PNone)]"

definition null_margin :: dict where
  "null_margin = [(''should_conclude'', PBool True), (''final_price'', PNum 289000),
                  (''margin'', PNone)]"

definition only_conclude :: dict where
  "only_conclude = [(''should_conclude'', PBool True)]"

definition confirmed_zero :: dict where
  "confirmed_zero = [(''should_conclude'', PBool True), (''final_price'', PNum 0),
                     (''margin'', PNum 0)]"

text \<open>The offline process with a database that refuses to save a negotiation.\<close>

definition save_fault_env :: env where
  "save_fault_env = offline_env\<lparr>write_negotiation := (\<lambda>n. Inl DatabaseError)\<rparr>"

text \<open>
  The negotiation and the database after the round of Scenario D, after one more round,
  and after a first round that failed once its record was created.
\<close>

definition concluded_deal :: negotiation where
  "concluded_deal = deal\<lparr>n_negotiation_rounds := 1, n_status := ''concluded'',
      n_final_price := Some 289000, n_margin_achieved := Some (25 / 2),
      n_ended_at := Some 1700000000\<rparr>"

definition first_round :: negotiation_round where
  "first_round = \<lparr>r_negotiation_id = 1, r_round_number = 1, r_agent_proposal = PDict [],
      r_agent_reasoning = PStr [], r_client_feedback = ''Entendu'', r_round_status = ''ongoing''\<rparr>"

definition second_round :: negotiation_round where
  "second_round = \<lparr>r_negotiation_id = 1, r_round_number = 2, r_agent_proposal = PDict [],
      r_agent_reasoning = PStr [], r_client_feedback = ''Encore'', r_round_status = ''ongoing''\<rparr>"

definition closed_deal :: db where
  "closed_deal = open_deal\<lparr>negotiations := [concluded_deal], rounds := [first_round]\<rparr>"

definition reopened_deal :: db where
  "reopened_deal = closed_deal\<lparr>negotiations := [concluded_deal\<lparr>n_negotiation_rounds := 2\<rparr>],
                                rounds := [first_round, second_round]\<rparr>"

definition failed_deal :: db where
  "failed_deal = open_deal\<lparr>rounds := [first_round]\<rparr>"

section \<open>Properties of the market data\<close>

text \<open>
  The aggregate of the scrapers has no key \<open>listings_count\<close> (it has \<open>sources_count\<close>), so
  a refresh in which a source succeeds raises \<open>KeyError\<close> while the defaults of
  \<open>update_or_create\<close> are built: the cache is never written, and no call changes the
  database through the market data.
\<close>

lemma aggregate_shape:
  assumes "sc_aggregate (aggregate_market_data e mk mo yr fu) = Some agg"
  shows "\<exists>a b c n. agg = [(''average_price'', PDec a), (''min_price'', PDec b),
                          (''max_price'', PDec c), (''sources_count'', PNum n)]"
  using assms
  by (auto simp add: aggregate_market_data_def Let_def simp del: map_filter_simps split: if_splits)

lemma aggregate_raises:
  assumes "sc_aggregate (aggregate_market_data e (v_make v) (v_model v) (v_year v) (v_fuel_type v))
             = Some agg"
  shows "(case and_then (subscript agg ''average_price'') (decimal_of_str (decimal_parse e)) of
            Inl err \<Rightarrow> (Inl err, d)
          | Inr average_price \<Rightarrow>
         (case and_then (subscript agg ''min_price'') (decimal_of_str (decimal_parse e)) of
            Inl err \<Rightarrow> (Inl err, d)
          | Inr price_min \<Rightarrow>
         (case and_then (subscript agg ''max_price'') (decimal_of_str (decimal_parse e)) of
            Inl err \<Rightarrow> (Inl err, d)
          | Inr price_max \<Rightarrow>
         (case subscript agg ''listings_count'' of
            Inl err \<Rightarrow> (Inl err, d)
          | Inr listings_count \<Rightarrow> f average_price price_min price_max listings_count))))
         = (Inl (KeyError ''listings_count''), d)"
proof -
  from aggregate_shape [OF assms] obtain a b c n
    where "agg = [(''average_price'', PDec a), (''min_price'', PDec b),
                  (''max_price'', PDec c), (''sources_count'', PNum n)]" by blast
  then show ?thesis by (simp add: subscript_def and_then_def)
qed

lemma get_or_scrape_refresh:
  assumes "cached_market_data d v = None \<or> (\<exists>m. cached_market_data d v = Some m \<and> is_fresh e m = Inr False)"
  shows "get_or_scrape_market_data e d v =
     (case sc_aggregate (aggregate_market_data e (v_make v) (v_model v) (v_year v) (v_fuel_type v)) of
        Some agg \<Rightarrow> (Inl (KeyError ''listings_count''), d)
      | None \<Rightarrow>
          (Inr [(''average_price'', PDec (v_current_market_value v)),
                (''min_price'', PDec (v_current_market_value v * (9 / 10))),
                (''max_price'', PDec (v_current_market_value v * (11 / 10))),
                (''listings_count'', PNum 0)], d))"
proof -
  have c: "(case cached_market_data d v of
              None \<Rightarrow> Inr None
            | Some m \<Rightarrow> map_sum id (\<lambda>fresh. if fresh then Some m else None) (is_fresh e m)) = Inr None"
    using assms by auto
  show ?thesis
  proof (cases "sc_aggregate (aggregate_market_data e (v_make v) (v_model v) (v_year v) (v_fuel_type v))")
    case None
    then show ?thesis unfolding get_or_scrape_market_data_def c by simp
  next
    case (Some agg)
    show ?thesis
      unfolding get_or_scrape_market_data_def c Some
      by (simp add: aggregate_raises [OF Some])
  qed
qed

lemma get_or_scrape_fresh:
  assumes "cached_market_data d v = Some m" and "is_fresh e m = Inr True"
  shows "get_or_scrape_market_data e d v = (Inr (market_data_to_dict m), d)"
  using assms by (simp add: get_or_scrape_market_data_def)

lemma get_or_scrape_aware:
  assumes "cached_market_data d v = Some m" and "aware_datetimes e"
  shows "get_or_scrape_market_data e d v = (Inl TypeError, d)"
  using assms by (simp add: get_or_scrape_market_data_def is_fresh_def)

lemma is_fresh_cases:
  obtains "is_fresh e m = Inl TypeError" "aware_datetimes e"
  | "is_fresh e m = Inr True" "\<not> aware_datetimes e"
  | "is_fresh e m = Inr False" "\<not> aware_datetimes e"
  by (cases "aware_datetimes e"; cases "(now e - md_last_updated m) div 86400 < 1")
    (simp_all add: is_fresh_def)

lemma snd_get_or_scrape: "snd (get_or_scrape_market_data e d v) = d"
proof (cases "cached_market_data d v")
  case None
  then show ?thesis
    by (simp add: get_or_scrape_refresh split: option.splits)
next
  case (Some m)
  show ?thesis
  proof (cases rule: is_fresh_cases [where e = e and m = m])
    case 1
    with Some show ?thesis by (simp add: get_or_scrape_aware)
  next
    case 2
    with Some show ?thesis by (simp add: get_or_scrape_fresh)
  next
    case 3
    with Some show ?thesis by (simp add: get_or_scrape_refresh split: option.splits)
  qed
qed

lemma no_scraper_no_aggregate:
  assumes "scrape_leboncoin e mk mo yr fu = None" and "scrape_webmoteurs e mk mo yr = None"
    and "scrape_caradisiac e mk mo yr = None" and "scrape_argus e mk mo yr = None"
  shows "sc_aggregate (aggregate_market_data e mk mo yr fu) = None"
  using assms by (simp add: aggregate_market_data_def Let_def List.map_filter_simps)



text \<open>
  With time stamps that are aware of their time zone the same call raises: the age of the
  cached row cannot be computed.
\<close>

lemma aware_stale_cache:
  "get_or_scrape_market_data aware_env stale_cache peugeot = (Inl TypeError, stale_cache)"
proof -
  have c: "cached_market_data stale_cache peugeot = Some stale_row"
    by (simp add: cached_market_data_def stale_cache_def showroom_def stale_row_def peugeot_def)
  show ?thesis by (rule get_or_scrape_aware [OF c]) (simp add: aware_env_def)
qed

lemma market_data_to_dict_get:
  "get (market_data_to_dict m) ''price_min'' = PNum (md_price_min m)"
  "get (market_data_to_dict m) ''price_max'' = PNum (md_price_max m)"
  "get (market_data_to_dict m) ''min_price'' = PNone"
  "get (market_data_to_dict m) ''max_price'' = PNone"
  by (simp_all add: market_data_to_dict_def get_def get_default_def)

lemma market_data_to_dict_keys:
  "keys (market_data_to_dict m) =
     {''average_price'', ''price_min'', ''price_max'', ''listings_count'', ''mileage_average''}"
  by (auto simp: market_data_to_dict_def keys_def)

text \<open>
  C10: the dictionary of a \<open>MarketData\<close> record carries the record's price bounds under
  \<open>price_min\<close> and \<open>price_max\<close> and has no key \<open>min_price\<close> or \<open>max_price\<close>, which a
  reader gets as \<open>None\<close>. A result of \<open>_get_or_scrape_market_data\<close> is the dictionary of
  the cached row when that row is found fresh; every other result is the fallback, which
  carries 0.9 and 1.1 times the vehicle's market value under \<open>min_price\<close> and \<open>max_price\<close>
  and has no key \<open>price_min\<close> or \<open>price_max\<close>.
\<close>

theorem market_dict_keys:
  assumes "get_or_scrape_market_data e d v = (Inr md, d')"
  shows "(\<forall>m. get (market_data_to_dict m) ''price_min'' = PNum (md_price_min m)
            \<and> get (market_data_to_dict m) ''price_max'' = PNum (md_price_max m)
            \<and> get (market_data_to_dict m) ''min_price'' = PNone
            \<and> get (market_data_to_dict m) ''max_price'' = PNone
            \<and> ''min_price'' \<notin> keys (market_data_to_dict m)
            \<and> ''max_price'' \<notin> keys (market_data_to_dict m))
       \<and> (if \<exists>m. cached_market_data d v = Some m \<and> is_fresh e m = Inr True
          then md = market_data_to_dict (the (cached_market_data d v))
          else get md ''min_price'' = PDec (v_current_market_value v * (9 / 10))
             \<and> get md ''max_price'' = PDec (v_current_market_value v * (11 / 10))
             \<and> get md ''price_min'' = PNone \<and> get md ''price_max'' = PNone
             \<and> ''price_min'' \<notin> keys md \<and> ''price_max'' \<notin> keys md)"
proof (intro conjI allI)
  show "if \<exists>m. cached_market_data d v = Some m \<and> is_fresh e m = Inr True
        then md = market_data_to_dict (the (cached_market_data d v))
        else get md ''min_price'' = PDec (v_current_market_value v * (9 / 10))
           \<and> get md ''max_price'' = PDec (v_current_market_value v * (11 / 10))
           \<and> get md ''price_min'' = PNone \<and> get md ''price_max'' = PNone
           \<and> ''price_min'' \<notin> keys md \<and> ''price_max'' \<notin> keys md"
  proof (cases "\<exists>m. cached_market_data d v = Some m \<and> is_fresh e m = Inr True")
    case True
    then obtain m where "cached_market_data d v = Some m" "is_fresh e m = Inr True" by blast
    with assms get_or_scrape_fresh [of d v m e] True show ?thesis by simp
  next
    case False
    have stale: "cached_market_data d v = None
                 \<or> (\<exists>m. cached_market_data d v = Some m \<and> is_fresh e m = Inr False)"
    proof (cases "cached_market_data d v")
      case None
      then show ?thesis by simp
    next
      case (Some m)
      show ?thesis
      proof (cases rule: is_fresh_cases [where e = e and m = m])
        case 1
        with assms get_or_scrape_aware [OF Some] show ?thesis by simp
      next
        case 2
        with False Some show ?thesis by simp
      next
        case 3
        with Some show ?thesis by simp
      qed
    qed
    have "md = [(''average_price'', PDec (v_current_market_value v)),
                (''min_price'', PDec (v_current_market_value v * (9 / 10))),
                (''max_price'', PDec (v_current_market_value v * (11 / 10))),
                (''listings_count'', PNum 0)]"
      using assms unfolding get_or_scrape_refresh [OF stale] by (simp split: option.splits)
    then show ?thesis
      unfolding if_not_P [OF False] by (simp add: keys_def get_def get_default_def)
  qed
qed (simp_all add: market_data_to_dict_get market_data_to_dict_keys)

text \<open>
  The Peugeot with a cached row of one hour: the snapshot carries the row's bounds 29000
  and 34000 under \<open>price_min\<close> and \<open>price_max\<close>. Without a cached row it is the
  fallback, which carries 28800 and 35200 under \<open>min_price\<close> and \<open>max_price\<close>.
\<close>

theorem market_dict_keys_witness:
  "get_or_scrape_market_data offline_env fresh_cache peugeot =
     (Inr (market_data_to_dict fresh_row), fresh_cache)
   \<and> get (market_data_to_dict fresh_row) ''price_min'' = PNum 29000
   \<and> get (market_data_to_dict fresh_row) ''price_max'' = PNum 34000
   \<and> get (market_data_to_dict fresh_row) ''min_price'' = PNone
   \<and> get_or_scrape_market_data offline_env showroom peugeot = (Inr peugeot_fallback, showroom)
   \<and> get peugeot_fallback ''min_price'' = PDec 28800
   \<and> get peugeot_fallback ''max_price'' = PDec 35200
   \<and> get peugeot_fallback ''price_min'' = PNone"
proof -
  have c: "cached_market_data fresh_cache peugeot = Some fresh_row"
    by (simp add: cached_market_data_def fresh_cache_def showroom_def fresh_row_def stale_row_def
        peugeot_def)
  have f: "is_fresh offline_env fresh_row = Inr True"
    by (simp add: is_fresh_def offline_env_def fresh_row_def)
  have r: "get_or_scrape_market_data offline_env fresh_cache peugeot =
     (Inr (market_data_to_dict fresh_row), fresh_cache)"
    using c f by (rule get_or_scrape_fresh)
  have y: "\<exists>m. cached_market_data fresh_cache peugeot = Some m \<and> is_fresh offline_env m = Inr True"
    using c f by simp
  have n: "cached_market_data showroom peugeot = None"
    by (simp add: cached_market_data_def showroom_def)
  have s: "get_or_scrape_market_data offline_env showroom peugeot = (Inr peugeot_fallback, showroom)"
    unfolding get_or_scrape_refresh [OF disjI1 [OF n]]
    by (simp add: no_scraper_no_aggregate offline_env_def peugeot_def peugeot_fallback_def)
  have k: "\<not> (\<exists>m. cached_market_data showroom peugeot = Some m \<and> is_fresh offline_env m = Inr True)"
    using n by simp
  from market_dict_keys [OF r] have a:
    "get (market_data_to_dict fresh_row) ''price_min'' = PNum (md_price_min fresh_row)"
    "get (market_data_to_dict fresh_row) ''price_max'' = PNum (md_price_max fresh_row)"
    "get (market_data_to_dict fresh_row) ''min_price'' = PNone"
    by blast+
  from market_dict_keys [OF s, unfolded if_not_P [OF k]] have b:
    "get peugeot_fallback ''min_price'' = PDec (v_current_market_value peugeot * (9 / 10))"
    "get peugeot_fallback ''max_price'' = PDec (v_current_market_value peugeot * (11 / 10))"
    "get peugeot_fallback ''price_min'' = PNone"
    by blast+
  show ?thesis
    using r s a b by (simp add: fresh_row_def stale_row_def peugeot_def)
qed

text \<open>
  The sum of a decimal context that rounds within \<open>eps\<close>: each of its additions adds a
  relative error of at most \<open>eps\<close>, so the sum of \<open>k\<close> prices is off by at most
  \<open>(1 + eps) ^ k - 1\<close> times the sum of their sizes.
\<close>

lemma rounded_sum_error:
  fixes add :: "rat \<Rightarrow> rat \<Rightarrow> rat"
  assumes add: "\<And>a b. \<bar>add a b - (a + b)\<bar> \<le> eps * \<bar>a + b\<bar>" and eps: "0 \<le> eps"
  shows "\<bar>foldl add a xs - (a + sum_list xs)\<bar>
           \<le> ((1 + eps) ^ length xs - 1) * (\<bar>a\<bar> + sum_list (map abs xs))"
proof (induction xs arbitrary: a)
  case Nil
  show ?case by simp
next
  case (Cons x xs)
  define c where "c = (1 + eps) ^ length xs"
  define A where "A = \<bar>a\<bar> + \<bar>x\<bar>"
  define S where "S = sum_list (map abs xs)"
  have c1: "1 \<le> c" unfolding c_def using eps by (simp add: one_le_power)
  have A0: "0 \<le> A" unfolding A_def by simp
  have S0: "0 \<le> S" unfolding S_def by (rule sum_list_nonneg) auto
  have e1: "\<bar>add a x - (a + x)\<bar> \<le> eps * A"
  proof -
    have "\<bar>add a x - (a + x)\<bar> \<le> eps * \<bar>a + x\<bar>" by (rule add)
    also have "\<dots> \<le> eps * A" unfolding A_def using eps by (intro mult_left_mono) simp_all
    finally show ?thesis .
  qed
  have a': "\<bar>add a x\<bar> \<le> (1 + eps) * A"
  proof -
    have "\<bar>add a x\<bar> \<le> \<bar>add a x - (a + x)\<bar> + \<bar>a + x\<bar>" by simp
    also have "\<dots> \<le> eps * A + A" using e1 unfolding A_def by (intro add_mono) simp_all
    finally show ?thesis by (simp add: algebra_simps)
  qed
  have ih: "\<bar>foldl add (add a x) xs - (add a x + sum_list xs)\<bar> \<le> (c - 1) * (\<bar>add a x\<bar> + S)"
    unfolding c_def S_def by (rule Cons.IH)
  have "\<bar>foldl add a (x # xs) - (a + sum_list (x # xs))\<bar>
          = \<bar>(foldl add (add a x) xs - (add a x + sum_list xs)) + (add a x - (a + x))\<bar>"
    by (simp add: algebra_simps)
  also have "\<dots> \<le> \<bar>foldl add (add a x) xs - (add a x + sum_list xs)\<bar> + \<bar>add a x - (a + x)\<bar>"
    by (rule abs_triangle_ineq)
  also have "\<dots> \<le> (c - 1) * (\<bar>add a x\<bar> + S) + eps * A"
    using ih e1 by (rule add_mono)
  also have "\<dots> \<le> (c - 1) * ((1 + eps) * A + S) + eps * A"
  proof -
    have "(c - 1) * (\<bar>add a x\<bar> + S) \<le> (c - 1) * ((1 + eps) * A + S)"
      using a' c1 by (intro mult_left_mono) simp_all
    then show ?thesis by simp
  qed
  also have "\<dots> = (c * (1 + eps) - 1) * A + (c - 1) * S"
    by (simp add: algebra_simps)
  also have "\<dots> \<le> (c * (1 + eps) - 1) * A + (c * (1 + eps) - 1) * S"
  proof -
    have "c - 1 \<le> c * (1 + eps) - 1" using c1 eps by (simp add: algebra_simps)
    then have "(c - 1) * S \<le> (c * (1 + eps) - 1) * S" using S0 by (rule mult_right_mono)
    then show ?thesis by simp
  qed
  also have "\<dots> = ((1 + eps) ^ length (x # xs) - 1) * (\<bar>a\<bar> + sum_list (map abs (x # xs)))"
    unfolding c_def A_def S_def by (simp add: algebra_simps)
  finally show ?case .
qed

lemma decimal_mean_error:
  assumes r: "rounds_within eps e" and eps: "0 \<le> eps" and ne: "prices \<noteq> []"
  shows "\<bar>decimal_div e (decimal_sum e prices) (length prices) - arithmetic_mean prices\<bar>
           \<le> ((1 + eps) ^ (length prices + 1) - 1) * arithmetic_mean (map abs prices)"
proof -
  define n where "n = length prices"
  define s where "s = decimal_sum e prices"
  define c where "c = (1 + eps) ^ n"
  define T where "T = sum_list (map abs prices)"
  have n0: "0 < n" unfolding n_def using ne by simp
  then have rn: "0 < (of_nat n :: rat)" by simp
  have c1: "1 \<le> c" unfolding c_def using eps by (simp add: one_le_power)
  have T0: "0 \<le> T" unfolding T_def by (rule sum_list_nonneg) auto
  have add: "\<And>a b. \<bar>decimal_add e a b - (a + b)\<bar> \<le> eps * \<bar>a + b\<bar>"
    using r by (simp add: rounds_within_def)
  have se: "\<bar>s - sum_list prices\<bar> \<le> (c - 1) * T"
    using rounded_sum_error [of "decimal_add e" eps 0 prices, OF add eps]
    by (simp add: s_def decimal_sum_def c_def n_def T_def)
  have sa: "\<bar>s\<bar> \<le> c * T"
  proof -
    have "\<bar>s\<bar> \<le> \<bar>s - sum_list prices\<bar> + \<bar>sum_list prices\<bar>" by simp
    also have "\<dots> \<le> (c - 1) * T + T"
      using se sum_list_abs [of prices] unfolding T_def by (intro add_mono) simp_all
    finally show ?thesis by (simp add: algebra_simps)
  qed
  have de: "\<bar>decimal_div e s n - s / of_nat n\<bar> \<le> eps * \<bar>s / of_nat n\<bar>"
    using r n0 by (simp add: rounds_within_def)
  have "\<bar>decimal_div e s n - sum_list prices / of_nat n\<bar>
          = \<bar>(decimal_div e s n - s / of_nat n) + (s - sum_list prices) / of_nat n\<bar>"
    by (simp add: diff_divide_distrib)
  also have "\<dots> \<le> \<bar>decimal_div e s n - s / of_nat n\<bar> + \<bar>(s - sum_list prices) / of_nat n\<bar>"
    by (rule abs_triangle_ineq)
  also have "\<dots> \<le> eps * \<bar>s / of_nat n\<bar> + \<bar>(s - sum_list prices) / of_nat n\<bar>"
    using de by simp
  also have "\<dots> = (eps * \<bar>s\<bar> + \<bar>s - sum_list prices\<bar>) / of_nat n"
    by (simp add: add_divide_distrib)
  also have "\<dots> \<le> (eps * (c * T) + (c - 1) * T) / of_nat n"
    using sa se eps rn by (intro divide_right_mono add_mono mult_left_mono) simp_all
  also have "\<dots> = ((1 + eps) ^ (n + 1) - 1) * (T / of_nat n)"
    unfolding c_def by (simp add: algebra_simps add_divide_distrib diff_divide_distrib)
  finally show ?thesis
    unfolding n_def s_def T_def arithmetic_mean_def by simp
qed

text \<open>
  C5 (as the code has it): when at least one succeeding source reports an average price,
  the aggregate's average price is the sum of those average prices divided by their
  number, both in the arithmetic of the decimal context; in a context that rounds within
  the relative error \<open>eps\<close> it differs from the arithmetic mean of \<open>k\<close> prices by at most
  \<open>(1 + eps) ^ (k + 1) - 1\<close> times the mean of their sizes. The aggregate's minimum and
  maximum price are the smallest and the largest of those average prices, and it counts
  the succeeding sources.
\<close>

theorem aggregate_statistics:
  assumes "prices = List.map_filter sd_average_price (succeeding_sources e make' model' year' fuel')"
    and "prices \<noteq> []"
    and "rounds_within eps e" and "0 \<le> eps"
  shows "sc_aggregate (aggregate_market_data e make' model' year' fuel') =
           Some [(''average_price'', PDec (decimal_div e (decimal_sum e prices) (length prices))),
                 (''min_price'', PDec (Min (set prices))),
                 (''max_price'', PDec (Max (set prices))),
                 (''sources_count'', PNum (of_nat (length (succeeding_sources e make' model' year' fuel'))))]
         \<and> \<bar>decimal_div e (decimal_sum e prices) (length prices) - arithmetic_mean prices\<bar>
             \<le> ((1 + eps) ^ (length prices + 1) - 1) * arithmetic_mean (map abs prices)"
proof -
  have valid: "map snd (List.map_filter (\<lambda>(name, data). map_option (Pair name) data)
                 [(''leboncoin'', scrape_leboncoin e make' model' year' fuel'),
                  (''webmoteurs'', scrape_webmoteurs e make' model' year'),
                  (''caradisiac'', scrape_caradisiac e make' model' year'),
                  (''argus'', scrape_argus e make' model' year')])
               = succeeding_sources e make' model' year' fuel'"
    by (simp add: succeeding_sources_def List.map_filter_simps split: option.splits)
  have ne: "succeeding_sources e make' model' year' fuel' \<noteq> []"
    using assms(1,2) by (auto simp: List.map_filter_simps)
  have "sc_aggregate (aggregate_market_data e make' model' year' fuel') =
           Some [(''average_price'', PDec (decimal_div e (decimal_sum e prices) (length prices))),
                 (''min_price'', PDec (Min (set prices))),
                 (''max_price'', PDec (Max (set prices))),
                 (''sources_count'', PNum (of_nat (length (succeeding_sources e make' model' year' fuel'))))]"
    using assms(1,2) ne unfolding aggregate_market_data_def Let_def valid by simp
  with decimal_mean_error [OF assms(3,4,2)] show ?thesis by simp
qed

text \<open>
  The aggregate of two listing sites in a context that is exact on their prices: the mean
  of 30000 and 32000, and the smaller and the larger of the two.
\<close>

theorem aggregate_statistics_witness:
  "sc_aggregate (aggregate_market_data two_sources_env ''Peugeot'' ''3008'' 2022 ''diesel'') =
     Some [(''average_price'', PDec 31000), (''min_price'', PDec 30000),
           (''max_price'', PDec 32000), (''sources_count'', PNum 2)]
   \<and> \<bar>31000 - arithmetic_mean [30000, 32000]\<bar> \<le> 0"
proof -
  have p: "[30000, 32000] = List.map_filter sd_average_price
             (succeeding_sources two_sources_env ''Peugeot'' ''3008'' 2022 ''diesel'')"
    by (simp add: succeeding_sources_def two_sources_env_def offline_env_def List.map_filter_simps)
  have ne: "[30000, 32000 :: rat] \<noteq> []" by simp
  have n: "length (succeeding_sources two_sources_env ''Peugeot'' ''3008'' 2022 ''diesel'') = 2"
    by (simp add: succeeding_sources_def two_sources_env_def offline_env_def List.map_filter_simps)
  have q: "decimal_div two_sources_env (decimal_sum two_sources_env [30000, 32000])
             (length [30000, 32000 :: rat]) = 31000"
    by (simp add: decimal_sum_def two_sources_env_def offline_env_def)
  have r: "rounds_within 0 two_sources_env"
    by (simp add: rounds_within_def two_sources_env_def offline_env_def)
  have z: "(0::rat) \<le> 0" by simp
  show ?thesis
    using aggregate_statistics [OF p ne r z] unfolding n q by simp
qed

text \<open>
  Against C5 as the specification words it: the two sites report the minimum prices 28000
  and 30000 and the maximum prices 33000 and 36000, whose means are 29000 and 34500; the
  aggregate's minimum and maximum are 30000 and 32000, the extremes of the two averages.
\<close>

theorem aggregate_min_max_counterexample:
  "get (the (sc_aggregate (aggregate_market_data two_sources_env ''Peugeot'' ''3008'' 2022 ''diesel'')))
       ''min_price'' = PDec 30000
   \<and> arithmetic_mean (List.map_filter sd_min_price
        (succeeding_sources two_sources_env ''Peugeot'' ''3008'' 2022 ''diesel'')) = 29000
   \<and> get (the (sc_aggregate (aggregate_market_data two_sources_env ''Peugeot'' ''3008'' 2022 ''diesel'')))
       ''max_price'' = PDec 32000
   \<and> arithmetic_mean (List.map_filter sd_max_price
        (succeeding_sources two_sources_env ''Peugeot'' ''3008'' 2022 ''diesel'')) = 34500"
  by (simp add: aggregate_market_data_def two_sources_env_def offline_env_def
      List.map_filter_simps Let_def succeeding_sources_def arithmetic_mean_def get_def get_default_def)

section \<open>Properties of offer creation\<close>

lemma get_default_missing: "k \<notin> keys d \<Longrightarrow> get_default d k v = v"
  by (simp add: get_default_def keys_def map_of_eq_None_iff [THEN iffD2])

lemma map_sum_id_Inr: "map_sum id g x = Inr y \<longleftrightarrow> (\<exists>r. x = Inr r \<and> y = g r)"
  by (cases x) auto

lemma offer_of_proposal_terms:
  assumes "offer_of_proposal e n tv p = Inr off"
  shows "\<exists>price. o_purchase_price off = Some price
            \<and> decimal_of_str (decimal_parse e) (get_default p ''purchase_price'' (PNum 0)) = Inr price"
    and "''purchase_price'' \<notin> keys p \<longrightarrow> o_purchase_price off = Some 0"
    and "if truthy (get p ''monthly_payment'')
         then \<exists>payment. o_monthly_payment off = Some payment
                \<and> decimal_of_str (decimal_parse e) (get p ''monthly_payment'') = Inr payment
         else o_monthly_payment off = None"
    and "o_duration_months off = get p ''duration_months''"
    and "o_offer_type off = get_default p ''offer_type'' (PStr ''achat'')"
    and "o_negotiation_id off = n_id n" and "o_vehicle_id off = v_id tv"
proof -
  from assms obtain price payment total score
    where price: "decimal_of_str (decimal_parse e) (get_default p ''purchase_price'' (PNum 0)) = Inr price"
      and payment: "(if truthy (get p ''monthly_payment'')
               then map_sum id Some
                      (decimal_of_str (decimal_parse e) (get_default p ''monthly_payment'' (PNum 0)))
               else Inr None) = Inr payment"
      and off: "off = \<lparr>o_negotiation_id = n_id n,
               o_offer_type = get_default p ''offer_type'' (PStr ''achat''),
               o_vehicle_id = v_id tv,
               o_trade_in_value = or_default (n_trade_in_offered_value n) 0,
               o_purchase_price = Some price,
               o_monthly_payment = payment,
               o_duration_months = get p ''duration_months'',
               o_total_cost = total,
               o_warranty_months = get_default p ''warranty_months'' (PNum 12),
               o_maintenance_included = get_default p ''maintenance_included'' (PBool False),
               o_insurance_included = get_default p ''insurance_included'' (PBool False),
               o_justification = get_default p ''reasoning'' (PStr []),
               o_confidence_score = score\<rparr>"
    by (auto simp: offer_of_proposal_def and_then_def split: sum.splits)
  show "\<exists>price. o_purchase_price off = Some price
            \<and> decimal_of_str (decimal_parse e) (get_default p ''purchase_price'' (PNum 0)) = Inr price"
    using price off by simp
  show "''purchase_price'' \<notin> keys p \<longrightarrow> o_purchase_price off = Some 0"
    using price off by (auto simp: get_default_missing)
  show "if truthy (get p ''monthly_payment'')
         then \<exists>payment. o_monthly_payment off = Some payment
                \<and> decimal_of_str (decimal_parse e) (get p ''monthly_payment'') = Inr payment
         else o_monthly_payment off = None"
  proof (cases "truthy (get p ''monthly_payment'')")
    case True
    then have "get_default p ''monthly_payment'' (PNum 0) = get p ''monthly_payment''"
      by (auto simp: get_def get_default_def split: option.splits)
    with True payment off show ?thesis by (auto simp: map_sum_id_Inr)
  next
    case False
    with payment off show ?thesis by simp
  qed
  show "o_duration_months off = get p ''duration_months''"
    and "o_offer_type off = get_default p ''offer_type'' (PStr ''achat'')"
    and "o_negotiation_id off = n_id n" and "o_vehicle_id off = v_id tv"
    using off by simp_all
qed

text \<open>
  The initial offer is made of the first proposal of the generator alone: of the object
  that its fields give, the table gets the row that the write stores.
\<close>

lemma create_initial_offer_first:
  assumes "n_target_vehicle_id n = Some vid" and "get_vehicle d vid = Some tv"
    and "get_or_scrape_market_data e d tv = (Inr md, d)"
    and "get_client d (n_client_id n) = Some c"
    and "structure_offer e tv (or_default (n_trade_in_offered_value n) 0)
           (if c_subscription_preference c \<noteq> ''flexible''
            then [c_subscription_preference c] else [''achat'', ''lld'', ''abonnement''])
           (or_default (c_budget_min c) 10000, or_default (c_budget_max c) 50000)
         = PDict p # rest"
  shows "create_initial_offer e d n =
           (case offer_of_proposal e n tv p of
              Inl err \<Rightarrow> (Inl err, d)
            | Inr off \<Rightarrow>
                (case stored_offer e off of
                   Inl err \<Rightarrow> (Inl err, d)
                 | Inr row \<Rightarrow> (Inr off, d\<lparr>offers := offers d @ [row]\<rparr>)))"
  using assms by (simp add: create_initial_offer_def Let_def)

lemma create_initial_offer_Inr:
  assumes "create_initial_offer e d n = (Inr off, d')"
  shows "\<exists>vid tv c p rest row.
           n_target_vehicle_id n = Some vid \<and> get_vehicle d vid = Some tv
           \<and> get_client d (n_client_id n) = Some c
           \<and> structure_offer e tv (or_default (n_trade_in_offered_value n) 0)
                (if c_subscription_preference c \<noteq> ''flexible''
                 then [c_subscription_preference c] else [''achat'', ''lld'', ''abonnement''])
                (or_default (c_budget_min c) 10000, or_default (c_budget_max c) 50000)
               = PDict p # rest
           \<and> offer_of_proposal e n tv p = Inr off
           \<and> stored_offer e off = Inr row
           \<and> d' = d\<lparr>offers := offers d @ [row]\<rparr>"
proof -
  obtain vid where vid: "n_target_vehicle_id n = Some vid"
    using assms by (cases "n_target_vehicle_id n") (auto simp: create_initial_offer_def)
  obtain tv where tv: "get_vehicle d vid = Some tv"
    using assms vid by (cases "get_vehicle d vid") (auto simp: create_initial_offer_def)
  obtain r where r: "get_or_scrape_market_data e d tv = (r, d)"
    using snd_get_or_scrape [of e d tv] by (cases "get_or_scrape_market_data e d tv") auto
  obtain md where md: "r = Inr md"
    using assms vid tv r by (cases r) (auto simp: create_initial_offer_def)
  obtain c where c: "get_client d (n_client_id n) = Some c"
    using assms vid tv r md by (cases "get_client d (n_client_id n)") (auto simp: create_initial_offer_def)
  show ?thesis
    using assms vid tv r md c
    by (auto simp: create_initial_offer_def Let_def split: list.splits pyval.splits sum.splits)
qed


text \<open>Creating the initial offer of the example negotiation, offline.\<close>

lemma offline_fallback:
  "get_or_scrape_market_data (generator_env ps) new_deal peugeot = (Inr peugeot_fallback, new_deal)"
proof -
  have n: "cached_market_data new_deal peugeot = None"
    by (simp add: cached_market_data_def new_deal_def showroom_def)
  show ?thesis
    unfolding get_or_scrape_refresh [OF disjI1 [OF n]]
    by (simp add: no_scraper_no_aggregate generator_env_def offline_env_def peugeot_def
        peugeot_fallback_def)
qed

lemma example_rows:
  "get_vehicle new_deal 2 = Some peugeot" "get_client new_deal 1 = Some jean"
  "n_target_vehicle_id deal = Some 2" "n_client_id deal = 1" "offers new_deal = []"
  by (simp_all add: get_vehicle_def get_client_def new_deal_def showroom_def clio_def peugeot_def
      jean_def deal_def)

lemma eval_create_offer:
  "create_initial_offer (generator_env (PDict p # rest)) new_deal deal =
     (case offer_of_proposal offline_env deal peugeot p of
        Inl err \<Rightarrow> (Inl err, new_deal)
      | Inr off \<Rightarrow> (Inr off, new_deal\<lparr>offers := [off]\<rparr>))"
proof -
  have o: "offer_of_proposal (generator_env ps) deal peugeot p = offer_of_proposal offline_env deal peugeot p"
    for ps by (simp add: offer_of_proposal_def generator_env_def)
  have w: "stored_offer (generator_env ps) off = Inr off" for ps off
    by (simp add: stored_offer_def generator_env_def offline_env_def)
  have c: "get_client new_deal (n_client_id deal) = Some jean"
    unfolding example_rows(4) by (rule example_rows(2))
  have s: "structure_offer (generator_env (PDict p # rest)) peugeot
             (or_default (n_trade_in_offered_value deal) 0)
             (if c_subscription_preference jean \<noteq> ''flexible''
              then [c_subscription_preference jean] else [''achat'', ''lld'', ''abonnement''])
             (or_default (c_budget_min jean) 10000, or_default (c_budget_max jean) 50000)
           = PDict p # rest"
    by (simp add: generator_env_def)
  show ?thesis
    unfolding create_initial_offer_first [OF example_rows(3) example_rows(1) offline_fallback c s]
    by (simp add: o w example_rows split: sum.splits)
qed

lemma eval_offers:
  "offer_of_proposal offline_env deal peugeot
     [(''offer_type'', PStr ''achat''), (''purchase_price'', PNum 38400),
      (''total_cost'', PNum 38400), (''warranty_months'', PNum 24),
      (''reasoning'', PStr ''Prix catalogue''), (''confidence_score'', PNum 60)] = Inr purchase_offer"
  "offer_of_proposal offline_env deal peugeot
     [(''offer_type'', PStr ''lld''), (''monthly_payment'', PNum 450),
      (''duration_months'', PNum 36), (''total_cost'', PNum 16200), (''confidence_score'', PNum 95)]
   = Inr lease_offer"
  "offer_of_proposal offline_env deal peugeot
     [(''offer_type'', PStr ''lld''), (''total_cost'', PNum 16200), (''confidence_score'', PNum 80)]
   = Inr bare_lease_offer"
  by (simp_all add: offer_of_proposal_def and_then_def get_def get_default_def offline_env_def
      deal_def peugeot_def purchase_offer_def lease_offer_def bare_lease_offer_def or_default_def)

lemma eval_two_proposals:
  "create_initial_offer (generator_env [purchase_proposal, lease_proposal]) new_deal deal =
     (Inr purchase_offer, new_deal\<lparr>offers := [purchase_offer]\<rparr>)"
  by (simp add: purchase_proposal_def eval_create_offer eval_offers)

lemma eval_lease:
  "create_initial_offer (generator_env [lease_proposal]) new_deal deal =
     (Inr lease_offer, new_deal\<lparr>offers := [lease_offer]\<rparr>)"
  by (simp add: lease_proposal_def eval_create_offer eval_offers)

lemma eval_bare_lease:
  "create_initial_offer (generator_env [bare_lease_proposal]) new_deal deal =
     (Inr bare_lease_offer, new_deal\<lparr>offers := [bare_lease_offer]\<rparr>)"
  by (simp add: bare_lease_proposal_def eval_create_offer eval_offers)


text \<open>
  C6 (as the code has it): every offer that the engine creates is made of the first
  proposal of the generator. Whatever its kind, its purchase price is non-null: the
  proposal's \<open>purchase_price\<close> read as a decimal, 0 when the proposal has none. Its monthly
  payment is the proposal's \<open>monthly_payment\<close> read as a decimal when that is true in
  Python's sense (present, not zero, not empty) and null otherwise; its duration is the
  proposal's \<open>duration_months\<close>, null when the proposal has none; neither depends on the
  kind, which is the proposal's \<open>offer_type\<close>, \<open>achat\<close> when absent. The table gets the
  row that the database layer stores for the offer.
\<close>

theorem created_offer_terms:
  assumes "create_initial_offer e d n = (Inr off, d')"
  shows "\<exists>tv c p rest row price.
           get_vehicle d (the (n_target_vehicle_id n)) = Some tv
           \<and> get_client d (n_client_id n) = Some c
           \<and> structure_offer e tv (or_default (n_trade_in_offered_value n) 0)
                (if c_subscription_preference c \<noteq> ''flexible''
                 then [c_subscription_preference c] else [''achat'', ''lld'', ''abonnement''])
                (or_default (c_budget_min c) 10000, or_default (c_budget_max c) 50000)
               = PDict p # rest
           \<and> o_purchase_price off = Some price
           \<and> decimal_of_str (decimal_parse e) (get_default p ''purchase_price'' (PNum 0)) = Inr price
           \<and> (''purchase_price'' \<notin> keys p \<longrightarrow> o_purchase_price off = Some 0)
           \<and> (if truthy (get p ''monthly_payment'')
                then \<exists>payment. o_monthly_payment off = Some payment
                       \<and> decimal_of_str (decimal_parse e) (get p ''monthly_payment'') = Inr payment
                else o_monthly_payment off = None)
           \<and> o_duration_months off = get p ''duration_months''
           \<and> o_offer_type off = get_default p ''offer_type'' (PStr ''achat'')
           \<and> stored_offer e off = Inr row
           \<and> d' = d\<lparr>offers := offers d @ [row]\<rparr>"
proof -
  from create_initial_offer_Inr [OF assms] obtain vid tv c p rest row
    where vid: "n_target_vehicle_id n = Some vid" and tv: "get_vehicle d vid = Some tv"
      and c: "get_client d (n_client_id n) = Some c"
      and s: "structure_offer e tv (or_default (n_trade_in_offered_value n) 0)
                (if c_subscription_preference c \<noteq> ''flexible''
                 then [c_subscription_preference c] else [''achat'', ''lld'', ''abonnement''])
                (or_default (c_budget_min c) 10000, or_default (c_budget_max c) 50000)
               = PDict p # rest"
      and o: "offer_of_proposal e n tv p = Inr off"
      and w: "stored_offer e off = Inr row" and d': "d' = d\<lparr>offers := offers d @ [row]\<rparr>"
    by blast
  from offer_of_proposal_terms(1) [OF o] obtain price
    where price: "o_purchase_price off = Some price"
      "decimal_of_str (decimal_parse e) (get_default p ''purchase_price'' (PNum 0)) = Inr price"
    by blast
  have t: "get_vehicle d (the (n_target_vehicle_id n)) = Some tv" using vid tv by simp
  from t c s price offer_of_proposal_terms(2-5) [OF o] w d' show ?thesis by blast
qed

text \<open>A complete lease proposal: the created offer has its monthly payment and a purchase price.\<close>

theorem created_offer_terms_witness:
  "create_initial_offer (generator_env [lease_proposal]) new_deal deal =
     (Inr lease_offer, new_deal\<lparr>offers := [lease_offer]\<rparr>)
   \<and> o_purchase_price lease_offer = Some 0
   \<and> o_monthly_payment lease_offer = Some 450
   \<and> o_duration_months lease_offer = PNum 36"
proof -
  from created_offer_terms [OF eval_lease]
  have "\<exists>price. o_purchase_price lease_offer = Some price" by blast
  then show ?thesis by (simp add: eval_lease) (simp add: lease_offer_def)
qed

text \<open>
  Against C6 as the specification words it: the generator proposes a long-term lease with
  neither \<open>monthly_payment\<close> nor \<open>duration_months\<close>; the engine creates the lease offer
  with a null monthly payment, a null duration and a purchase price of 0.
\<close>

theorem lease_without_terms_counterexample:
  "create_initial_offer (generator_env [bare_lease_proposal]) new_deal deal =
     (Inr bare_lease_offer, new_deal\<lparr>offers := [bare_lease_offer]\<rparr>)
   \<and> o_offer_type bare_lease_offer = PStr ''lld''
   \<and> o_monthly_payment bare_lease_offer = None
   \<and> o_duration_months bare_lease_offer = PNone
   \<and> o_purchase_price bare_lease_offer = Some 0"
  by (simp add: eval_bare_lease) (simp add: bare_lease_offer_def)

section \<open>Properties of a round\<close>

lemma get_negotiation_id: "get_negotiation d i = Some n \<Longrightarrow> n_id n = i"
  by (auto simp: get_negotiation_def find_Some_iff)

lemma find_saved:
  "find (\<lambda>r. n_id r = i) (map (\<lambda>r. if n_id r = n_id n then n else r) xs) =
     (if i = n_id n then map_option (\<lambda>_. n) (find (\<lambda>r. n_id r = i) xs)
      else find (\<lambda>r. n_id r = i) xs)"
  by (induction xs) auto

lemma get_negotiation_save:
  "get_negotiation (save_negotiation n d) i =
     (if i = n_id n then map_option (\<lambda>_. n) (get_negotiation d i) else get_negotiation d i)"
  by (simp add: get_negotiation_def save_negotiation_def find_saved)

lemma save_negotiation_other [simp]:
  "rounds (save_negotiation n d) = rounds d" "offers (save_negotiation n d) = offers d"
  "clients (save_negotiation n d) = clients d" "vehicles (save_negotiation n d) = vehicles d"
  "market (save_negotiation n d) = market d"
  by (simp_all add: save_negotiation_def)

lemma get_negotiation_rounds_update [simp]:
  "get_negotiation (d\<lparr>rounds := rs\<rparr>) i = get_negotiation d i"
  by (simp add: get_negotiation_def)

lemma get_negotiation_cong:
  "negotiations d1 = negotiations d \<Longrightarrow> get_negotiation d1 i = get_negotiation d i"
  by (simp add: get_negotiation_def)

lemma stored_negotiation_keeps:
  assumes "stored_negotiation e n = Inr row"
  shows "n_id row = n_id n" and "n_negotiation_rounds row = n_negotiation_rounds n"
    and "n_max_rounds row = n_max_rounds n" and "n_status row = n_status n"
  using assms by (auto simp: stored_negotiation_def map_sum_id_Inr)

lemma stored_round_keeps:
  assumes "stored_round e r = Inr row"
  shows "r_negotiation_id row = r_negotiation_id r" and "r_round_number row = r_round_number r"
    and "r_client_feedback row = r_client_feedback r"
  using assms by (auto simp: stored_round_def map_sum_id_Inr)

lemma create_initial_offer_effect:
  assumes "create_initial_offer e d n = (r, d')"
  shows "d' = d \<or> (\<exists>row. d' = d\<lparr>offers := offers d @ [row]\<rparr>)"
proof (cases r)
  case (Inr off)
  with assms create_initial_offer_Inr [of e d n off d'] show ?thesis by auto
next
  case (Inl err)
  have m: "snd (get_or_scrape_market_data e d tv) = d" for tv by (rule snd_get_or_scrape)
  show ?thesis
  proof (cases "n_target_vehicle_id n")
    case None
    with assms show ?thesis by (simp add: create_initial_offer_def)
  next
    case (Some vid)
    show ?thesis
    proof (cases "get_vehicle d vid")
      case None
      with assms Some show ?thesis by (simp add: create_initial_offer_def)
    next
      case tv: (Some tv)
      obtain x where x: "get_or_scrape_market_data e d tv = (x, d)"
        using m [of tv] by (cases "get_or_scrape_market_data e d tv") auto
      show ?thesis
        using assms Some tv x Inl
        by (auto simp: create_initial_offer_def Let_def
            split: sum.splits option.splits list.splits pyval.splits)
    qed
  qed
qed

lemma current_best_offer_effect:
  assumes "current_best_offer e d n = (r, d')"
  shows "negotiations d' = negotiations d" and "rounds d' = rounds d"
    and "clients d' = clients d" and "vehicles d' = vehicles d" and "market d' = market d"
  using assms create_initial_offer_effect [of e d n r d']
  by (auto simp: current_best_offer_def split: option.splits)

lemma decimal_of_str_error: "decimal_of_str p v = Inl err \<Longrightarrow> err = InvalidOperation"
  by (cases v) (auto split: option.splits)

lemma conclude_error: "conclude e rr n = Inl err \<Longrightarrow> err = InvalidOperation"
  by (auto simp: conclude_def and_then_def split: if_splits sum.splits dest: decimal_of_str_error)

lemma conclude_keeps:
  assumes "conclude e rr n = Inr n2"
  shows "n_id n2 = n_id n" and "n_negotiation_rounds n2 = n_negotiation_rounds n"
    and "n_max_rounds n2 = n_max_rounds n"
  using assms by (auto simp: conclude_def and_then_def split: if_splits sum.splits)

lemma conclude_status:
  assumes "conclude e rr n = Inr n2" and "n_status n = ''concluded''"
  shows "n_status n2 = ''concluded''"
  using assms by (auto simp: conclude_def and_then_def split: if_splits sum.splits)

lemma conclude_terms:
  assumes "conclude e rr n = Inr n2"
    and "truthy (get_default rr ''should_conclude'' (PBool False))"
  shows "\<exists>p m. decimal_of_str (decimal_parse e) (get_default rr ''final_price'' (PNum 0)) = Inr p \<and>
               decimal_of_str (decimal_parse e) (get_default rr ''margin'' (PNum 0)) = Inr m \<and>
               n2 = n\<lparr>n_status := ''concluded'', n_final_price := Some p,
                       n_margin_achieved := Some m, n_ended_at := Some (now e)\<rparr>"
  using assms by (auto simp: conclude_def and_then_def split: sum.splits)

lemma execute_round_exhausted:
  assumes "get_negotiation d i = Some n" and "n_max_rounds n \<le> n_negotiation_rounds n"
  shows "execute_negotiation_round e d i fb = (Inr [(''status'', PStr ''max_rounds_reached'')], d)"
  using assms by (simp add: execute_negotiation_round_def)

text \<open>
  The ways in which a round ends: the negotiation is missing; its rounds are exhausted; a
  step before the record of the round fails, and nothing of the negotiation or of its
  rounds is written; a step after it fails, and the record of the round is in the
  database while the row of the negotiation is as before; or the round completes.
\<close>

lemma execute_round_cases [consumes 1, case_names missing exhausted early late completed]:
  assumes ex: "execute_negotiation_round e d i fb = (r, d')"
  obtains
    "get_negotiation d i = None" "r = Inl DoesNotExist" "d' = d"
  | n where "get_negotiation d i = Some n" "n_max_rounds n \<le> n_negotiation_rounds n"
      "r = Inr [(''status'', PStr ''max_rounds_reached'')]" "d' = d"
  | n err where "get_negotiation d i = Some n" "n_negotiation_rounds n < n_max_rounds n"
      "r = Inl err" "negotiations d' = negotiations d" "rounds d' = rounds d"
  | n err rr d1 round_row where "get_negotiation d i = Some n"
      "n_negotiation_rounds n < n_max_rounds n"
      "r = Inl err"
      "conclude e rr (n\<lparr>n_negotiation_rounds := n_negotiation_rounds n + 1\<rparr>) = Inl err
       \<or> (\<exists>n2. conclude e rr (n\<lparr>n_negotiation_rounds := n_negotiation_rounds n + 1\<rparr>) = Inr n2
              \<and> stored_negotiation e n2 = Inl err)"
      "stored_round e (round_record (n\<lparr>n_negotiation_rounds := n_negotiation_rounds n + 1\<rparr>) rr fb)
         = Inr round_row"
      "negotiations d1 = negotiations d" "rounds d1 = rounds d"
      "d' = d1\<lparr>rounds := rounds d1 @ [round_row]\<rparr>"
  | n off rr d1 round_row n2 row where "get_negotiation d i = Some n"
      "n_negotiation_rounds n < n_max_rounds n"
      "current_best_offer e d (n\<lparr>n_negotiation_rounds := n_negotiation_rounds n + 1\<rparr>) = (Inr off, d1)"
      "process_round e off fb (n_negotiation_rounds n + 1) (n_max_rounds n) = Inr rr"
      "stored_round e (round_record (n\<lparr>n_negotiation_rounds := n_negotiation_rounds n + 1\<rparr>) rr fb)
         = Inr round_row"
      "conclude e rr (n\<lparr>n_negotiation_rounds := n_negotiation_rounds n + 1\<rparr>) = Inr n2"
      "stored_negotiation e n2 = Inr row"
      "r = Inr (round_response n2 rr)"
      "negotiations d1 = negotiations d" "rounds d1 = rounds d"
      "d' = save_negotiation row (d1\<lparr>rounds := rounds d1 @ [round_row]\<rparr>)"
proof (cases "get_negotiation d i")
  case None
  with ex have "r = Inl DoesNotExist" "d' = d"
    by (simp_all add: execute_negotiation_round_def)
  with None show ?thesis by (rule that(1))
next
  case (Some n)
  let ?n1 = "n\<lparr>n_negotiation_rounds := n_negotiation_rounds n + 1\<rparr>"
  show ?thesis
  proof (cases "n_max_rounds n \<le> n_negotiation_rounds n")
    case True
    with ex Some have "r = Inr [(''status'', PStr ''max_rounds_reached'')]" "d' = d"
      by (simp_all add: execute_negotiation_round_def)
    with Some True show ?thesis by (rule that(2))
  next
    case False
    then have lt: "n_negotiation_rounds n < n_max_rounds n" by simp
    obtain ro d1 where cb: "current_best_offer e d ?n1 = (ro, d1)"
      by (cases "current_best_offer e d ?n1") auto
    note eff = current_best_offer_effect(1,2) [OF cb]
    show ?thesis
    proof (cases ro)
      case (Inl err)
      have "execute_negotiation_round e d i fb = (Inl err, d1)"
        by (simp add: execute_negotiation_round_def Let_def Some False cb Inl)
      with ex have r1: "r = Inl err" and "d' = d1" by simp_all
      with eff have "negotiations d' = negotiations d" "rounds d' = rounds d" by simp_all
      with Some lt r1 show ?thesis by (rule that(3))
    next
      case off: (Inr off)
      show ?thesis
      proof (cases "process_round e off fb (n_negotiation_rounds n + 1) (n_max_rounds n)")
        case (Inl err)
        have "execute_negotiation_round e d i fb = (Inl err, d1)"
          by (simp add: execute_negotiation_round_def Let_def Some False cb off Inl)
        with ex have r1: "r = Inl err" and "d' = d1" by simp_all
        with eff have "negotiations d' = negotiations d" "rounds d' = rounds d" by simp_all
        with Some lt r1 show ?thesis by (rule that(3))
      next
        case rr: (Inr rr)
        show ?thesis
        proof (cases "stored_round e (round_record ?n1 rr fb)")
          case (Inl err)
          have "execute_negotiation_round e d i fb = (Inl err, d1)"
            by (simp add: execute_negotiation_round_def Let_def Some False cb off rr Inl)
          with ex have r1: "r = Inl err" and "d' = d1" by simp_all
          with eff have "negotiations d' = negotiations d" "rounds d' = rounds d" by simp_all
          with Some lt r1 show ?thesis by (rule that(3))
        next
          case rrow: (Inr round_row)
          show ?thesis
          proof (cases "conclude e rr ?n1")
            case (Inl err)
            have "execute_negotiation_round e d i fb = (Inl err, d1\<lparr>rounds := rounds d1 @ [round_row]\<rparr>)"
              by (simp add: execute_negotiation_round_def Let_def Some False cb off rr rrow Inl)
            with ex have r1: "r = Inl err" and d1': "d' = d1\<lparr>rounds := rounds d1 @ [round_row]\<rparr>"
              by simp_all
            have c1: "conclude e rr ?n1 = Inl err
               \<or> (\<exists>n2. conclude e rr ?n1 = Inr n2 \<and> stored_negotiation e n2 = Inl err)"
              using Inl by simp
            show ?thesis
              by (rule that(4) [OF Some lt r1 c1 rrow eff d1'])
          next
            case n2: (Inr n2)
            show ?thesis
            proof (cases "stored_negotiation e n2")
              case (Inl err)
              have "execute_negotiation_round e d i fb = (Inl err, d1\<lparr>rounds := rounds d1 @ [round_row]\<rparr>)"
                by (simp add: execute_negotiation_round_def Let_def Some False cb off rr rrow n2 Inl)
              with ex have r1: "r = Inl err" and d1': "d' = d1\<lparr>rounds := rounds d1 @ [round_row]\<rparr>"
                by simp_all
              have c1: "conclude e rr ?n1 = Inl err
                 \<or> (\<exists>n2. conclude e rr ?n1 = Inr n2 \<and> stored_negotiation e n2 = Inl err)"
                using n2 Inl by simp
              show ?thesis
                by (rule that(4) [OF Some lt r1 c1 rrow eff d1'])
            next
              case row: (Inr row)
              have "execute_negotiation_round e d i fb =
                      (Inr (round_response n2 rr),
                       save_negotiation row (d1\<lparr>rounds := rounds d1 @ [round_row]\<rparr>))"
                by (simp add: execute_negotiation_round_def Let_def Some False cb off rr rrow n2 row)
              with ex have r1: "r = Inr (round_response n2 rr)"
                and d1': "d' = save_negotiation row (d1\<lparr>rounds := rounds d1 @ [round_row]\<rparr>)"
                by simp_all
              show ?thesis
                by (rule that(5) [OF Some lt cb [unfolded off] rr rrow n2 row r1 eff d1'])
            qed
          qed
        qed
      qed
    qed
  qed
qed

lemma completed_round_session:
  assumes "get_negotiation d i = Some n"
    and "conclude e rr (n\<lparr>n_negotiation_rounds := n_negotiation_rounds n + 1\<rparr>) = Inr n2"
    and "stored_negotiation e n2 = Inr row"
    and "negotiations d1 = negotiations d"
  shows "get_negotiation (save_negotiation row (d1\<lparr>rounds := rs\<rparr>)) i = Some row"
proof -
  have "n_id row = i"
    using stored_negotiation_keeps(1) [OF assms(3)] conclude_keeps(1) [OF assms(2)]
      get_negotiation_id [OF assms(1)] by simp
  moreover have "get_negotiation d1 i = Some n"
    using assms(1,4) by (simp add: get_negotiation_def)
  ultimately show ?thesis by (simp add: get_negotiation_save)
qed

text \<open>The rounds of the example negotiation.\<close>

lemmas example_defs = open_deal_def showroom_def deal_def purchase_offer_def advisor_env_def
  offline_env_def scenario_d_def null_price_def null_margin_def only_conclude_def
  confirmed_zero_def save_fault_env_def concluded_deal_def first_round_def second_round_def
  closed_deal_def reopened_deal_def failed_deal_def spent_deal_def

lemmas round_defs = execute_negotiation_round_def get_negotiation_def current_best_offer_def
  latest_offer_def conclude_def get_default_def and_then_def round_record_def round_response_def
  save_negotiation_def stored_round_def stored_negotiation_def Let_def

lemma eval_scenario_d:
  "execute_negotiation_round (advisor_env scenario_d) open_deal 1 ''Entendu'' =
     (Inr [(''round_number'', PNum 1), (''proposed_offer'', PDict []),
           (''status'', PStr ''concluded''), (''should_continue'', PBool False),
           (''confidence'', PNum 0)],
      closed_deal)"
  by (simp add: round_defs example_defs)

lemma eval_null_price:
  "execute_negotiation_round (advisor_env null_price) open_deal 1 ''Entendu'' =
     (Inl InvalidOperation, failed_deal)"
  by (simp add: round_defs example_defs)



lemma eval_after_conclusion:
  "execute_negotiation_round offline_env closed_deal 1 ''Encore'' =
     (Inr [(''round_number'', PNum 2), (''proposed_offer'', PDict []),
           (''status'', PStr ''concluded''), (''should_continue'', PBool True),
           (''confidence'', PNum 0)],
      reopened_deal)"
  by (simp add: round_defs example_defs)

lemma eval_missing_terms:
  "execute_negotiation_round (advisor_env only_conclude) open_deal 1 ''Entendu'' =
   execute_negotiation_round (advisor_env confirmed_zero) open_deal 1 ''Entendu''"
  by (simp add: round_defs example_defs)

lemma get_closed_deal: "get_negotiation closed_deal 1 = Some concluded_deal"
  by (simp add: get_negotiation_def closed_deal_def concluded_deal_def deal_def)

lemma get_open_deal: "get_negotiation open_deal 1 = Some deal"
  by (simp add: get_negotiation_def open_deal_def deal_def)


lemma get_reopened_deal:
  "get_negotiation reopened_deal 1 = Some (concluded_deal\<lparr>n_negotiation_rounds := 2\<rparr>)"
  by (simp add: get_negotiation_def reopened_deal_def concluded_deal_def deal_def)

lemma get_spent_deal:
  "get_negotiation spent_deal 1 = Some (deal\<lparr>n_negotiation_rounds := 10\<rparr>)"
  by (simp add: get_negotiation_def spent_deal_def showroom_def deal_def)

lemma closed_deal_session:
  "map_option n_status (get_negotiation closed_deal 1) = Some ''concluded''"
  "map_option n_negotiation_rounds (get_negotiation closed_deal 1) = Some 1"
  unfolding get_closed_deal by (simp_all add: concluded_deal_def)

lemma reopened_deal_session:
  "map_option n_negotiation_rounds (get_negotiation reopened_deal 1) = Some 2"
  unfolding get_reopened_deal by simp

lemma example_rounds:
  "rounds open_deal = []" "rounds failed_deal = [first_round]" "rounds closed_deal = [first_round]"
  "rounds reopened_deal = [first_round, second_round]"
  by (simp_all add: open_deal_def showroom_def failed_deal_def closed_deal_def reopened_deal_def)

text \<open>
  C8: a round on an existing negotiation whose counter has reached \<open>max_rounds\<close> returns
  the status \<open>max_rounds_reached\<close> and leaves the database as it is, counter and round
  records included; a further call, whatever its feedback and whatever the collaborators
  answer, reports the same status on the same database.
\<close>

theorem exhausted_round_is_noop:
  assumes "get_negotiation d i = Some n" and "n_max_rounds n \<le> n_negotiation_rounds n"
  shows "execute_negotiation_round e d i fb = (Inr [(''status'', PStr ''max_rounds_reached'')], d) \<and>
         execute_negotiation_round e' (snd (execute_negotiation_round e d i fb)) i fb' =
           (Inr [(''status'', PStr ''max_rounds_reached'')], d)"
  using assms by (simp add: execute_round_exhausted)

text \<open>The negotiation after its tenth round of ten, called twice.\<close>

theorem exhausted_round_is_noop_witness:
  "execute_negotiation_round offline_env spent_deal 1 ''Encore'' =
     (Inr [(''status'', PStr ''max_rounds_reached'')], spent_deal) \<and>
   execute_negotiation_round (advisor_env scenario_d)
       (snd (execute_negotiation_round offline_env spent_deal 1 ''Encore'')) 1 ''Entendu'' =
     (Inr [(''status'', PStr ''max_rounds_reached'')], spent_deal)"
proof -
  have "n_max_rounds (deal\<lparr>n_negotiation_rounds := 10\<rparr>)
          \<le> n_negotiation_rounds (deal\<lparr>n_negotiation_rounds := 10\<rparr>)"
    by (simp add: deal_def)
  with get_spent_deal show ?thesis by (rule exhausted_round_is_noop)
qed

text \<open>
  C2 (as the code has it): the status of a negotiation is not tested. A round on a
  concluded negotiation is a no-op, returning \<open>max_rounds_reached\<close>, only when its counter
  has reached \<open>max_rounds\<close>; otherwise a round that returns has incremented the stored
  counter, has added a round record with the new number, and reports the status
  \<open>concluded\<close>, which the stored row keeps.
\<close>

theorem concluded_session_round:
  assumes "get_negotiation d i = Some n" and "n_status n = ''concluded''"
    and "execute_negotiation_round e d i fb = (Inr res, d')"
  shows "if n_max_rounds n \<le> n_negotiation_rounds n
         then res = [(''status'', PStr ''max_rounds_reached'')] \<and> d' = d
         else get res ''status'' = PStr ''concluded'' \<and>
              get res ''round_number'' = PNum (of_int (n_negotiation_rounds n + 1)) \<and>
              map_option n_negotiation_rounds (get_negotiation d' i) = Some (n_negotiation_rounds n + 1) \<and>
              map_option n_status (get_negotiation d' i) = Some ''concluded'' \<and>
              (\<exists>round_row. rounds d' = rounds d @ [round_row] \<and> r_negotiation_id round_row = i
                 \<and> r_round_number round_row = n_negotiation_rounds n + 1)"
  using assms(3)
proof (cases rule: execute_round_cases)
  case missing
  with assms(1) show ?thesis by simp
next
  case (exhausted n')
  with assms(1) show ?thesis by simp
next
  case (early n' err)
  then show ?thesis by simp
next
  case (late n' err rr d1 round_row)
  then show ?thesis by simp
next
  case (completed n' off rr d1 round_row n2 row)
  from completed(1) assms(1) have n: "n' = n" by simp
  note c = completed(6) [unfolded n]
  note w = completed(7)
  have st: "n_status row = ''concluded''"
    using stored_negotiation_keeps(4) [OF w] conclude_status [OF c] assms(2) by simp
  have k: "n_negotiation_rounds row = n_negotiation_rounds n + 1"
    using stored_negotiation_keeps(2) [OF w] conclude_keeps(2) [OF c] by simp
  have st2: "n_status n2 = ''concluded''"
    using conclude_status [OF c] assms(2) by simp
  have k2: "n_negotiation_rounds n2 = n_negotiation_rounds n + 1"
    using conclude_keeps(2) [OF c] by simp
  have g: "get_negotiation d' i = Some row"
    unfolding completed(11) using assms(1) c w completed(9) by (rule completed_round_session)
  have r: "rounds d' = rounds d @ [round_row]"
    unfolding completed(11) using completed(10) by simp
  have rk: "r_negotiation_id round_row = i" "r_round_number round_row = n_negotiation_rounds n + 1"
    using stored_round_keeps(1,2) [OF completed(5)] get_negotiation_id [OF assms(1)] n
    by (simp_all add: round_record_def)
  from r rk have "\<exists>round_row. rounds d' = rounds d @ [round_row] \<and> r_negotiation_id round_row = i
                 \<and> r_round_number round_row = n_negotiation_rounds n + 1" by blast
  moreover have res: "res = round_response n2 rr" using completed(8) by simp
  moreover have lt: "\<not> n_max_rounds n \<le> n_negotiation_rounds n" using completed(2) n by simp
  ultimately show ?thesis
    unfolding if_not_P [OF lt] using st k g st2 k2
    by (simp add: round_response_def get_def get_default_def)
qed

text \<open>One more round on the negotiation that Scenario D has concluded after its first.\<close>

theorem concluded_session_round_witness:
  "map_option n_negotiation_rounds
     (get_negotiation (snd (execute_negotiation_round offline_env closed_deal 1 ''Encore'')) 1) = Some 2"
proof -
  have b: "n_status concluded_deal = ''concluded''" by (simp add: concluded_deal_def)
  have c: "\<not> n_max_rounds concluded_deal \<le> n_negotiation_rounds concluded_deal"
    by (simp add: concluded_deal_def deal_def)
  from concluded_session_round [OF get_closed_deal b eval_after_conclusion, unfolded if_not_P [OF c]]
  have "map_option n_negotiation_rounds (get_negotiation reopened_deal 1) =
          Some (n_negotiation_rounds concluded_deal + 1)" by blast
  then show ?thesis
    unfolding eval_after_conclusion snd_conv by (simp add: concluded_deal_def)
qed

text \<open>
  Against C2 as the specification words it: the round of Scenario D concludes the
  negotiation at its first round of ten; the next call runs a second round, which raises
  the stored counter to 2 and adds a second round record.
\<close>

theorem round_after_conclusion_counterexample:
  "execute_negotiation_round (advisor_env scenario_d) open_deal 1 ''Entendu'' =
     (Inr [(''round_number'', PNum 1), (''proposed_offer'', PDict []),
           (''status'', PStr ''concluded''), (''should_continue'', PBool False),
           (''confidence'', PNum 0)],
      closed_deal) \<and>
   map_option n_status (get_negotiation closed_deal 1) = Some ''concluded'' \<and>
   map_option n_negotiation_rounds (get_negotiation closed_deal 1) = Some 1 \<and>
   rounds closed_deal = [first_round] \<and>
   execute_negotiation_round offline_env closed_deal 1 ''Encore'' =
     (Inr [(''round_number'', PNum 2), (''proposed_offer'', PDict []),
           (''status'', PStr ''concluded''), (''should_continue'', PBool True),
           (''confidence'', PNum 0)],
      reopened_deal) \<and>
   map_option n_negotiation_rounds (get_negotiation reopened_deal 1) = Some 2 \<and>
   rounds reopened_deal = [first_round, second_round]"
  by (intro conjI eval_scenario_d eval_after_conclusion closed_deal_session
      reopened_deal_session example_rounds)

text \<open>
  C4 (as the code has it): when the advisor's answer to a round has a true
  \<open>should_conclude\<close> and the round returns, the advisor's \<open>final_price\<close> and \<open>margin\<close> have
  been read as decimals, a missing one as 0 (a value that is no decimal literal makes the
  round raise instead); the negotiation is saved with the status \<open>concluded\<close>, those two
  decimals and the time of the call as its end, and its stored row is what the database
  layer stores for that; the result reports the status \<open>concluded\<close> under exactly the
  five keys of every round, none of which tells a missing term from a zero.
\<close>

theorem concluding_round:
  assumes "get_negotiation d i = Some n"
    and "n_negotiation_rounds n < n_max_rounds n"
    and "current_best_offer e d (n\<lparr>n_negotiation_rounds := n_negotiation_rounds n + 1\<rparr>) = (Inr off, d1)"
    and "process_round e off fb (n_negotiation_rounds n + 1) (n_max_rounds n) = Inr rr"
    and "truthy (get_default rr ''should_conclude'' (PBool False))"
    and "execute_negotiation_round e d i fb = (Inr res, d')"
  shows "\<exists>p m row.
           decimal_of_str (decimal_parse e) (get_default rr ''final_price'' (PNum 0)) = Inr p \<and>
           decimal_of_str (decimal_parse e) (get_default rr ''margin'' (PNum 0)) = Inr m \<and>
           (''final_price'' \<notin> keys rr \<longrightarrow> p = 0) \<and> (''margin'' \<notin> keys rr \<longrightarrow> m = 0) \<and>
           stored_negotiation e
             (n\<lparr>n_negotiation_rounds := n_negotiation_rounds n + 1,
                n_status := ''concluded'', n_final_price := Some p,
                n_margin_achieved := Some m, n_ended_at := Some (now e)\<rparr>) = Inr row \<and>
           get_negotiation d' i = Some row \<and>
           n_status row = ''concluded'' \<and>
           map fst res = [''round_number'', ''proposed_offer'', ''status'', ''should_continue'',
                          ''confidence''] \<and>
           get res ''status'' = PStr ''concluded''"
  using assms(6)
proof (cases rule: execute_round_cases)
  case missing
  with assms(1) show ?thesis by simp
next
  case (exhausted n')
  with assms(1,2) show ?thesis by simp
next
  case (early n' err)
  then show ?thesis by simp
next
  case (late n' err rr' d1' round_row)
  then show ?thesis by simp
next
  case (completed n' off' rr' d1' round_row n2 row)
  from completed(1) assms(1) have n: "n' = n" by simp
  from completed(3) assms(3) n have o: "off' = off" "d1' = d1" by simp_all
  from completed(4) assms(4) n o have rr: "rr' = rr" by simp
  note c = completed(6) [unfolded n rr]
  obtain p m where p: "decimal_of_str (decimal_parse e) (get_default rr ''final_price'' (PNum 0)) = Inr p"
    and m: "decimal_of_str (decimal_parse e) (get_default rr ''margin'' (PNum 0)) = Inr m"
    and n2: "n2 = n\<lparr>n_negotiation_rounds := n_negotiation_rounds n + 1,
                     n_status := ''concluded'', n_final_price := Some p,
                     n_margin_achieved := Some m, n_ended_at := Some (now e)\<rparr>"
    using conclude_terms [OF c assms(5)] by auto
  have w: "stored_negotiation e
             (n\<lparr>n_negotiation_rounds := n_negotiation_rounds n + 1,
                n_status := ''concluded'', n_final_price := Some p,
                n_margin_achieved := Some m, n_ended_at := Some (now e)\<rparr>) = Inr row"
    using completed(7) unfolding n2 .
  have g: "get_negotiation d' i = Some row"
    unfolding completed(11) using assms(1) c completed(7) completed(9) [unfolded o]
    unfolding o by (rule completed_round_session)
  have st: "n_status row = ''concluded''"
    using stored_negotiation_keeps(4) [OF completed(7)] by (simp add: n2)
  have p0: "''final_price'' \<notin> keys rr \<longrightarrow> p = 0"
    using p by (auto simp: get_default_missing)
  have m0: "''margin'' \<notin> keys rr \<longrightarrow> m = 0"
    using m by (auto simp: get_default_missing)
  have res: "res = round_response n2 rr" using completed(8) rr by simp
  have k: "map fst res = [''round_number'', ''proposed_offer'', ''status'', ''should_continue'',
                              ''confidence'']"
    by (simp add: res round_response_def)
  have s: "get res ''status'' = PStr ''concluded''"
    by (simp add: res n2 round_response_def get_def get_default_def)
  show ?thesis
    apply (insert p m p0 m0 w g st k s)
    apply (rule exI [of _ p], rule exI [of _ m], rule exI [of _ row])
    apply simp
    done
qed

text \<open>
  Scenario D of the specification: the advisor concludes with the final price 289000 and
  the margin 12.5.
\<close>

theorem concluding_round_witness:
  "get_negotiation (snd (execute_negotiation_round (advisor_env scenario_d) open_deal 1 ''Entendu'')) 1 =
     Some (deal\<lparr>n_negotiation_rounds := 1, n_status := ''concluded'',
                n_final_price := Some 289000, n_margin_achieved := Some (25 / 2),
                n_ended_at := Some 1700000000\<rparr>)"
proof -
  have o: "current_best_offer (advisor_env scenario_d) open_deal
             (deal\<lparr>n_negotiation_rounds := n_negotiation_rounds deal + 1\<rparr>) =
           (Inr purchase_offer, open_deal)"
    by (simp add: current_best_offer_def latest_offer_def open_deal_def deal_def purchase_offer_def)
  have p: "process_round (advisor_env scenario_d) purchase_offer ''Entendu''
             (n_negotiation_rounds deal + 1) (n_max_rounds deal) = Inr scenario_d"
    by (simp add: advisor_env_def)
  have t: "truthy (get_default scenario_d ''should_conclude'' (PBool False))"
    by (simp add: scenario_d_def get_default_def)
  have l: "n_negotiation_rounds deal < n_max_rounds deal" by (simp add: deal_def)
  from concluding_round [OF get_open_deal l o p t eval_scenario_d]
  obtain row where "get_negotiation closed_deal 1 = Some row" by blast
  then show ?thesis
    unfolding eval_scenario_d snd_conv get_closed_deal by (simp add: concluded_deal_def)
qed

text \<open>
  Against C4 as the specification words it: the advisor concludes with a final price that
  is the JSON \<open>null\<close>, and the round raises \<open>decimal.InvalidOperation\<close> after the record
  of the round is created; and the round of a conclusion without terms returns what the
  round of a conclusion with the terms 0 and 0 returns.
\<close>

theorem null_final_price_counterexample:
  "truthy (get_default null_price ''should_conclude'' (PBool False)) \<and>
   execute_negotiation_round (advisor_env null_price) open_deal 1 ''Entendu'' =
     (Inl InvalidOperation, failed_deal) \<and>
   rounds failed_deal = [first_round] \<and>
   execute_negotiation_round (advisor_env only_conclude) open_deal 1 ''Entendu'' =
   execute_negotiation_round (advisor_env confirmed_zero) open_deal 1 ''Entendu''"
  by (intro conjI eval_null_price eval_missing_terms example_rounds)
    (simp add: null_price_def get_default_def)




end
